theory Spec2Isabelle
  imports Main "HOL-Library.Word" "HOL-Library.Sublist"
begin

unbundle bit_operations_syntax

section \<open>qpvk: instance negotiation and physical-device selection (src/main.c)\<close>

text \<open>
  A C string is modelled by the bytes before its terminating NUL, so \<open>strcmp a b == 0\<close>
  is equality of the two lists. Handles and pointers are 64-bit words with
  \<open>VK_NULL_HANDLE = 0\<close>; \<open>uint32_t\<close> is \<open>32 word\<close>.
\<close>

type_synonym handle = "64 word"
type_synonym uint32_t = "32 word"
type_synonym VkResult = int

definition VK_SUCCESS :: VkResult where
  "VK_SUCCESS = 0"

definition VK_NULL_HANDLE :: handle where
  "VK_NULL_HANDLE = 0"

subsection \<open>C library functions used by main.c\<close>

text \<open>\<open>strncmp(s, t, n) == 0\<close>: the first \<open>n\<close> bytes agree, or both strings end
  before that at the same place.\<close>

definition strncmp_eq :: "string \<Rightarrow> string \<Rightarrow> nat \<Rightarrow> bool" where
  "strncmp_eq s t n = (take n s = take n t)"

text \<open>\<open>strstr(haystack, needle)\<close>: the suffix of the haystack starting at the first
  occurrence of the needle, \<open>None\<close> for the null pointer. An empty needle matches at
  once.\<close>

fun strstr :: "string \<Rightarrow> string \<Rightarrow> string option" where
  "strstr [] needle = (if needle = [] then Some [] else None)"
| "strstr (c # cs) needle =
     (if prefix needle (c # cs) then Some (c # cs) else strstr cs needle)"

definition isspace :: "char \<Rightarrow> bool" where
  "isspace c = (c = CHR '' '' \<or> (9 \<le> (of_char c :: nat) \<and> (of_char c :: nat) \<le> 13))"

text \<open>The value of a digit character for \<open>strtol\<close>: \<open>0\<close>--\<open>9\<close>, then the letters in
  either case from 10 on.\<close>

definition digit_value :: "char \<Rightarrow> nat option" where
  "digit_value c =
     (let n = (of_char c :: nat) in
      if 48 \<le> n \<and> n \<le> 57 then Some (n - 48)
      else if 97 \<le> n \<and> n \<le> 122 then Some (n - 87)
      else if 65 \<le> n \<and> n \<le> 90 then Some (n - 55)
      else None)"

definition is_digit_of :: "nat \<Rightarrow> char \<Rightarrow> bool" where
  "is_digit_of base c = (case digit_value c of None \<Rightarrow> False | Some d \<Rightarrow> d < base)"

definition accumulate_digits :: "nat \<Rightarrow> string \<Rightarrow> int" where
  "accumulate_digits base ds = foldl (\<lambda>a c. a * int base + int (the (digit_value c))) 0 ds"

text \<open>\<open>strtol(s, NULL, base)\<close> for an explicit base (main.c passes 16): white space is
  skipped, then an optional sign, then for base 16 an optional \<open>0x\<close>/\<open>0X\<close> that is
  followed by a hexadecimal digit, then the longest run of digits. No digits at all give 0.
  A value outside \<open>long\<close> is clamped to \<open>LONG_MAX\<close> or \<open>LONG_MIN\<close>. The width of
  \<open>long\<close> in bits is the parameter \<open>lw\<close> (64 on LP64 targets, 32 on LLP64 and ILP32).\<close>

definition strtol :: "nat \<Rightarrow> string \<Rightarrow> nat \<Rightarrow> int" where
  "strtol lw s base =
     (let s1 = dropWhile isspace s;
          neg = (take 1 s1 = ''-'');
          s2 = (if take 1 s1 = ''-'' \<or> take 1 s1 = ''+'' then drop 1 s1 else s1);
          s3 = (if base = 16 \<and> (take 2 s2 = ''0x'' \<or> take 2 s2 = ''0X'')
                   \<and> (case drop 2 s2 of [] \<Rightarrow> False | c # _ \<Rightarrow> is_digit_of 16 c)
                then drop 2 s2 else s2);
          v = accumulate_digits base (takeWhile (is_digit_of base) s3)
      in if neg then max (- v) (- (2 ^ (lw - 1))) else min v (2 ^ (lw - 1) - 1))"

subsection \<open>Physical-device selection (main, lines 153--182)\<close>

record VkPhysicalDeviceProperties =
  deviceName :: string
  deviceID :: uint32_t

text \<open>Each of the three \<open>for\<close> loops stores the index of the first element that passes
  its test and breaks; the variable keeps its value \<open>-1\<close> when none does.\<close>

fun first_index_from :: "('a \<Rightarrow> bool) \<Rightarrow> 'a list \<Rightarrow> nat \<Rightarrow> int" where
  "first_index_from P [] i = -1"
| "first_index_from P (x # xs) i = (if P x then int i else first_index_from P xs (Suc i))"

definition select_physical_device ::
  "nat \<Rightarrow> VkPhysicalDeviceProperties list \<Rightarrow> string option \<Rightarrow> int" where
  "select_physical_device lw props device_name =
     (let selected =
        (case device_name of
           None \<Rightarrow> -1
         | Some name \<Rightarrow>
             if strncmp_eq name ''0x'' 2 then
               (let id = (word_of_int (strtol lw name 16) :: uint32_t)
                in first_index_from (\<lambda>p. deviceID p = id) props 0)
             else
               (let exact = first_index_from (\<lambda>p. deviceName p = name) props 0
                in if exact = -1
                   then first_index_from (\<lambda>p. strstr (deviceName p) name \<noteq> None) props 0
                   else exact))
      in if selected = -1 then 0 else selected)"

subsection \<open>Formatted output (printf and the log.h macros)\<close>

text \<open>A call \<open>log_info(fmt, ...)\<close> and its siblings is recorded as the level with the
  formatted message; \<open>printf\<close> appends to the standard output.\<close>

datatype log_level = LOG_INFO | LOG_WARN | LOG_ERROR | LOG_FATAL

type_synonym log_entry = "log_level \<times> string"

definition newline :: string where
  "newline = [CHR 0x0A]"

definition dec_digit :: "nat \<Rightarrow> char" where
  "dec_digit d = ''0123456789'' ! d"

definition hex_digit_upper :: "nat \<Rightarrow> char" where
  "hex_digit_upper d = ''0123456789ABCDEF'' ! d"

text \<open>The conversion \<open>%u\<close>.\<close>

fun fmt_u :: "nat \<Rightarrow> string" where
  "fmt_u n = (if n < 10 then [dec_digit n] else fmt_u (n div 10) @ [dec_digit (n mod 10)])"

declare fmt_u.simps [simp del]

text \<open>The conversion \<open>%d\<close>.\<close>

definition fmt_d :: "int \<Rightarrow> string" where
  "fmt_d i = (if i < 0 then ''-'' @ fmt_u (nat (- i)) else fmt_u (nat i))"

text \<open>The conversion \<open>%X\<close>, and \<open>%08X\<close>: the digits, padded on the left with zeros
  to a width of at least 8.\<close>

fun fmt_X :: "nat \<Rightarrow> string" where
  "fmt_X n = (if n < 16 then [hex_digit_upper n]
              else fmt_X (n div 16) @ [hex_digit_upper (n mod 16)])"

declare fmt_X.simps [simp del]

definition fmt_08X :: "uint32_t \<Rightarrow> string" where
  "fmt_08X w = (let ds = fmt_X (unat w) in replicate (8 - length ds) (CHR ''0'') @ ds)"

subsection \<open>Context and its teardown (lines 28--52, 192--218)\<close>

record Context =
  physical_device :: handle
  device :: handle
  allocator :: handle
  surface :: handle
  swapchain :: handle
  supports_KHR_swapchain :: bool
  graphics_queue_family :: uint32_t
  present_queue_family :: uint32_t
  num_swapchain_images :: uint32_t
  swapchain_images :: handle

text \<open>The static initialiser of the global \<open>context_\<close> (a name cannot end in an
  underscore here).\<close>

definition context_initial :: Context where
  "context_initial = \<lparr>physical_device = VK_NULL_HANDLE, device = VK_NULL_HANDLE,
     allocator = VK_NULL_HANDLE, surface = VK_NULL_HANDLE, swapchain = VK_NULL_HANDLE,
     supports_KHR_swapchain = False, graphics_queue_family = - 1,
     present_queue_family = - 1, num_swapchain_images = 0, swapchain_images = 0\<rparr>"

definition initialize_context :: "handle \<Rightarrow> handle \<Rightarrow> Context \<Rightarrow> Context" where
  "initialize_context physical_device_arg surface_arg ctx =
     ctx\<lparr>physical_device := physical_device_arg, surface := surface_arg\<rparr>"

text \<open>The destruction calls a teardown makes, with their arguments, in the order made.\<close>

datatype destroy_call =
    vmaDestroyAllocator handle
  | free handle
  | vkDestroySwapchain handle handle
  | vkDestroyDevice handle
  | vkDestroySurfaceKHR handle handle
  | vkDestroyDebugUtilsMessengerEXT handle handle
  | vkDestroyInstance handle

definition destroy_context :: "handle \<Rightarrow> Context \<Rightarrow> destroy_call list" where
  "destroy_context instance ctx =
     (if allocator ctx \<noteq> 0 then [vmaDestroyAllocator (allocator ctx)] else [])
     @ (if swapchain_images ctx \<noteq> 0 then [free (swapchain_images ctx)] else [])
     @ (if swapchain ctx \<noteq> 0 then [vkDestroySwapchain (device ctx) (swapchain ctx)] else [])
     @ (if device ctx \<noteq> 0 then [vkDestroyDevice (device ctx)] else [])
     @ (if surface ctx \<noteq> 0 then [vkDestroySurfaceKHR instance (surface ctx)] else [])"

subsection \<open>The debug callback and its registration (lines 220--260)\<close>

text \<open>The severity and type bits are those of the Vulkan headers (vulkan_core.h).\<close>

definition VK_DEBUG_UTILS_MESSAGE_SEVERITY_VERBOSE_BIT_EXT :: uint32_t where
  "VK_DEBUG_UTILS_MESSAGE_SEVERITY_VERBOSE_BIT_EXT = 0x00000001"

definition VK_DEBUG_UTILS_MESSAGE_SEVERITY_INFO_BIT_EXT :: uint32_t where
  "VK_DEBUG_UTILS_MESSAGE_SEVERITY_INFO_BIT_EXT = 0x00000010"

definition VK_DEBUG_UTILS_MESSAGE_SEVERITY_WARNING_BIT_EXT :: uint32_t where
  "VK_DEBUG_UTILS_MESSAGE_SEVERITY_WARNING_BIT_EXT = 0x00000100"

definition VK_DEBUG_UTILS_MESSAGE_SEVERITY_ERROR_BIT_EXT :: uint32_t where
  "VK_DEBUG_UTILS_MESSAGE_SEVERITY_ERROR_BIT_EXT = 0x00001000"

definition VK_DEBUG_UTILS_MESSAGE_TYPE_GENERAL_BIT_EXT :: uint32_t where
  "VK_DEBUG_UTILS_MESSAGE_TYPE_GENERAL_BIT_EXT = 0x00000001"

definition VK_DEBUG_UTILS_MESSAGE_TYPE_VALIDATION_BIT_EXT :: uint32_t where
  "VK_DEBUG_UTILS_MESSAGE_TYPE_VALIDATION_BIT_EXT = 0x00000002"

definition VK_DEBUG_UTILS_MESSAGE_TYPE_PERFORMANCE_BIT_EXT :: uint32_t where
  "VK_DEBUG_UTILS_MESSAGE_TYPE_PERFORMANCE_BIT_EXT = 0x00000004"

definition VK_FALSE :: uint32_t where
  "VK_FALSE = 0"

record VkDebugUtilsMessengerCallbackDataEXT =
  pMessage :: string

definition cgvk_HandleDebugCallback ::
  "uint32_t \<Rightarrow> uint32_t \<Rightarrow> VkDebugUtilsMessengerCallbackDataEXT \<Rightarrow> handle
     \<Rightarrow> log_entry list \<times> uint32_t" where
  "cgvk_HandleDebugCallback messageSeverity messageTypes pCallbackData pUserData =
     (let message = pMessage pCallbackData in
      ((if messageSeverity = VK_DEBUG_UTILS_MESSAGE_SEVERITY_INFO_BIT_EXT
          then [(LOG_INFO, ''[vk] '' @ message)]
        else if messageSeverity = VK_DEBUG_UTILS_MESSAGE_SEVERITY_WARNING_BIT_EXT
          then [(LOG_WARN, ''[vk] '' @ message)]
        else if messageSeverity = VK_DEBUG_UTILS_MESSAGE_SEVERITY_ERROR_BIT_EXT
          then [(LOG_ERROR, ''[vk] '' @ message)]
        else []),
       VK_FALSE))"

record VkDebugUtilsMessengerCreateInfoEXT =
  flags :: uint32_t
  messageSeverity :: uint32_t
  messageType :: uint32_t
  pUserData :: handle

text \<open>The create-info of \<open>init_debug_utils\<close>; its \<open>pfnUserCallback\<close> is
  \<open>cgvk_HandleDebugCallback\<close>.\<close>

definition debug_utils_createinfo :: VkDebugUtilsMessengerCreateInfoEXT where
  "debug_utils_createinfo =
     \<lparr>flags = 0,
      messageSeverity = VK_DEBUG_UTILS_MESSAGE_SEVERITY_ERROR_BIT_EXT
                        OR VK_DEBUG_UTILS_MESSAGE_SEVERITY_WARNING_BIT_EXT,
      messageType = VK_DEBUG_UTILS_MESSAGE_TYPE_GENERAL_BIT_EXT
                    OR VK_DEBUG_UTILS_MESSAGE_TYPE_VALIDATION_BIT_EXT
                    OR VK_DEBUG_UTILS_MESSAGE_TYPE_PERFORMANCE_BIT_EXT,
      pUserData = 0\<rparr>"

text \<open>The Vulkan driver's side of a messenger (VK_EXT_debug_utils): an event of one
  severity bit and a set of type bits is handed to the registered callback only when the
  severity bit is in the messenger's \<open>messageSeverity\<close> and some type bit is in its
  \<open>messageType\<close>.\<close>

definition messenger_delivers ::
  "VkDebugUtilsMessengerCreateInfoEXT \<Rightarrow> uint32_t \<Rightarrow> uint32_t \<Rightarrow> bool" where
  "messenger_delivers ci severity types =
     (severity AND messageSeverity ci \<noteq> 0 \<and> types AND messageType ci \<noteq> 0)"

definition messenger_event ::
  "VkDebugUtilsMessengerCreateInfoEXT \<Rightarrow> uint32_t \<Rightarrow> uint32_t
     \<Rightarrow> VkDebugUtilsMessengerCallbackDataEXT \<Rightarrow> log_entry list" where
  "messenger_event ci severity types d =
     (if messenger_delivers ci severity types
      then fst (cgvk_HandleDebugCallback severity types d (pUserData ci)) else [])"

subsection \<open>The driver as seen by main.c\<close>

text \<open>A Vulkan enumeration is called twice: once for the count, once to fill the array.
  \<open>count_result\<close> and \<open>fill_result\<close> are the two return values, \<open>elements\<close> the
  array the second call fills; the count of the first call is its length.\<close>

record 'a enumeration =
  count_result :: VkResult
  fill_result :: VkResult
  elements :: "'a list"

text \<open>Layers and extensions are represented by their \<open>layerName\<close> and
  \<open>extensionName\<close>, the only fields main.c reads. \<open>vkEnumerateInstanceExtensionProperties\<close>
  takes \<open>pLayerName\<close>, \<open>None\<close> for \<open>NULL\<close>; \<open>vkCreateInstance\<close> takes the enabled
  layer and extension names of its create-info.\<close>

record driver =
  vkEnumerateInstanceLayerProperties :: "string enumeration"
  vkEnumerateInstanceExtensionProperties :: "string option \<Rightarrow> string enumeration"
  vkCreateInstance :: "string list \<Rightarrow> string list \<Rightarrow> VkResult \<times> handle"
  vkCreateDebugUtilsMessengerEXT :: "VkDebugUtilsMessengerCreateInfoEXT \<Rightarrow> VkResult \<times> handle"
  vkEnumeratePhysicalDevices :: "handle enumeration"
  vkGetPhysicalDeviceProperties :: "handle \<Rightarrow> VkPhysicalDeviceProperties"

text \<open>The file-scope variables \<open>instance_\<close>, \<open>debug_messenger_\<close>,
  \<open>supports_EXT_debug_utils_\<close>, \<open>supports_KHR_surface_\<close> and \<open>supports_KHR_display_\<close>
  (lines 22--26); a name cannot end in an underscore here.\<close>

record globals =
  instance_g :: handle
  debug_messenger_g :: handle
  supports_EXT_debug_utils_g :: bool
  supports_KHR_surface_g :: bool
  supports_KHR_display_g :: bool

definition globals_initial :: globals where
  "globals_initial = \<lparr>instance_g = VK_NULL_HANDLE, debug_messenger_g = VK_NULL_HANDLE,
     supports_EXT_debug_utils_g = False, supports_KHR_surface_g = False,
     supports_KHR_display_g = False\<rparr>"

text \<open>How a function stops without returning: \<open>abort()\<close>, or a write past the end of
  one of the two fixed arrays \<open>layer_names[2]\<close> and \<open>extension_names[16]\<close>, which C
  leaves undefined.\<close>

datatype stop = Aborted | Layer_names_overflow | Extension_names_overflow

text \<open>Which of the \<open>#if\<close> branches of lines 356--373 is compiled.\<close>

datatype platform = Linux | Windows | Apple | Other_platform

definition VK_EXT_DEBUG_UTILS_EXTENSION_NAME :: string where
  "VK_EXT_DEBUG_UTILS_EXTENSION_NAME = ''VK_EXT_debug_utils''"

definition VK_KHR_SURFACE_EXTENSION_NAME :: string where
  "VK_KHR_SURFACE_EXTENSION_NAME = ''VK_KHR_surface''"

definition VK_KHR_DISPLAY_EXTENSION_NAME :: string where
  "VK_KHR_DISPLAY_EXTENSION_NAME = ''VK_KHR_display''"

subsection \<open>initialize_instance: negotiation (lines 268--377)\<close>

text \<open>\<open>names[count++] = s\<close> on an array of \<open>capacity\<close> entries, of which the list holds
  the first \<open>count\<close>.\<close>

definition store_name :: "nat \<Rightarrow> stop \<Rightarrow> string list \<Rightarrow> string \<Rightarrow> stop + string list" where
  "store_name capacity overflow names s =
     (if length names < capacity then Inr (names @ [s]) else Inl overflow)"

text \<open>The loop of lines 288--295.\<close>

fun scan_layers :: "string list \<Rightarrow> string list \<Rightarrow> stop + string list" where
  "scan_layers [] layer_names = Inr layer_names"
| "scan_layers (layerName # rest) layer_names =
     (if layerName = ''VK_LAYER_KHRONOS_validation'' then
        (case store_name 2 Layer_names_overflow layer_names ''VK_LAYER_KHRONOS_validation'' of
           Inl e \<Rightarrow> Inl e
         | Inr layer_names' \<Rightarrow> scan_layers rest layer_names')
      else if layerName = ''VK_LAYER_LUNARG_standard_validation'' then
        (case store_name 2 Layer_names_overflow layer_names
                ''VK_LAYER_LUNARG_standard_validation'' of
           Inl e \<Rightarrow> Inl e
         | Inr layer_names' \<Rightarrow> scan_layers rest layer_names')
      else scan_layers rest layer_names)"

text \<open>Lines 273--297.\<close>

definition find_validation_layers ::
  "bool \<Rightarrow> driver \<Rightarrow> log_entry list \<times> (stop + string list)" where
  "find_validation_layers debug drv =
     (if debug then
        (let q = vkEnumerateInstanceLayerProperties drv in
         if count_result q \<noteq> VK_SUCCESS then
           ([(LOG_FATAL, ''vkEnumerateInstanceLayerProperties failed: '' @ fmt_d (count_result q))],
            Inl Aborted)
         else if length (elements q) > 0 then
           (if fill_result q \<noteq> VK_SUCCESS then
              ([(LOG_FATAL, ''vkEnumerateInstanceLayerProperties failed: ''
                            @ fmt_d (fill_result q))],
               Inl Aborted)
            else ([], scan_layers (elements q) []))
         else ([], Inr []))
      else ([], Inr []))"

text \<open>The loop over the chosen layers of lines 302--323; the inner loop sets the flag at
  every entry named \<open>VK_EXT_debug_utils\<close>.\<close>

fun scan_layer_extensions ::
  "driver \<Rightarrow> string list \<Rightarrow> bool \<Rightarrow> log_entry list \<times> (stop + bool)" where
  "scan_layer_extensions drv [] supports = ([], Inr supports)"
| "scan_layer_extensions drv (layer # rest) supports =
     (let q = vkEnumerateInstanceExtensionProperties drv (Some layer) in
      if count_result q \<noteq> VK_SUCCESS then
        ([(LOG_FATAL, ''vkEnumerateInstanceExtensionProperties failed: ''
                      @ fmt_d (count_result q))],
         Inl Aborted)
      else if length (elements q) > 0 then
        (if fill_result q \<noteq> VK_SUCCESS then
           ([(LOG_FATAL, ''vkEnumerateInstanceExtensionProperties failed: ''
                         @ fmt_d (fill_result q))],
            Inl Aborted)
         else scan_layer_extensions drv rest
                (foldl (\<lambda>s extensionName.
                          if extensionName = VK_EXT_DEBUG_UTILS_EXTENSION_NAME then True else s)
                   supports (elements q)))
      else scan_layer_extensions drv rest supports)"

text \<open>Lines 299--324.\<close>

definition find_debug_extensions ::
  "bool \<Rightarrow> driver \<Rightarrow> string list \<Rightarrow> log_entry list \<times> (stop + bool)" where
  "find_debug_extensions debug drv layer_names =
     (if debug then scan_layer_extensions drv layer_names False else ([], Inr False))"

text \<open>One of the unconditional \<open>if (strcmp(extname, s) == 0) extension_names[...] = s\<close>
  statements of the platform branches, run after what came before it.\<close>

definition store_if_named ::
  "string \<Rightarrow> string \<Rightarrow> stop + string list \<Rightarrow> stop + string list" where
  "store_if_named extname s earlier =
     (case earlier of
        Inl e \<Rightarrow> Inl e
      | Inr names \<Rightarrow>
          if extname = s then store_name 16 Extension_names_overflow names s else Inr names)"

text \<open>Lines 356--373.\<close>

definition platform_surface_extensions ::
  "platform \<Rightarrow> string \<Rightarrow> string list \<Rightarrow> stop + string list" where
  "platform_surface_extensions pf extname names =
     (case pf of
        Linux \<Rightarrow>
          store_if_named extname ''VK_KHR_xlib_surface''
            (store_if_named extname ''VK_KHR_xcb_surface''
              (store_if_named extname ''VK_KHR_wayland_surface'' (Inr names)))
      | Windows \<Rightarrow> store_if_named extname ''VK_KHR_win32_surface'' (Inr names)
      | Apple \<Rightarrow> Inr names
      | Other_platform \<Rightarrow> Inr names)"

text \<open>The state of the surface loop: \<open>supports_KHR_surface_\<close>, \<open>supports_KHR_display_\<close>
  and the filled part of \<open>extension_names\<close>.\<close>

type_synonym surface_state = "bool \<times> bool \<times> string list"

text \<open>The loop of lines 346--375.\<close>

fun scan_surface_extensions ::
  "platform \<Rightarrow> string list \<Rightarrow> surface_state \<Rightarrow> stop + surface_state" where
  "scan_surface_extensions pf [] st = Inr st"
| "scan_surface_extensions pf (extname # rest) (surf, disp, names) =
     (if extname = VK_KHR_SURFACE_EXTENSION_NAME then
        (case store_name 16 Extension_names_overflow names VK_KHR_SURFACE_EXTENSION_NAME of
           Inl e \<Rightarrow> Inl e
         | Inr names' \<Rightarrow> scan_surface_extensions pf rest (True, disp, names'))
      else if extname = VK_KHR_DISPLAY_EXTENSION_NAME then
        (case store_name 16 Extension_names_overflow names VK_KHR_DISPLAY_EXTENSION_NAME of
           Inl e \<Rightarrow> Inl e
         | Inr names' \<Rightarrow> scan_surface_extensions pf rest (surf, True, names'))
      else
        (case platform_surface_extensions pf extname names of
           Inl e \<Rightarrow> Inl e
         | Inr names' \<Rightarrow> scan_surface_extensions pf rest (surf, disp, names')))"

text \<open>Lines 329--377.\<close>

definition find_surface_extensions ::
  "platform \<Rightarrow> driver \<Rightarrow> string list \<Rightarrow> log_entry list \<times> (stop + surface_state)" where
  "find_surface_extensions pf drv extension_names =
     (let q = vkEnumerateInstanceExtensionProperties drv None in
      if count_result q \<noteq> VK_SUCCESS then
        ([(LOG_FATAL, ''vkEnumerateInstanceExtensionProperties failed: ''
                      @ fmt_d (count_result q))],
         Inl Aborted)
      else if length (elements q) > 0 then
        (if fill_result q \<noteq> VK_SUCCESS then
           ([(LOG_FATAL, ''vkEnumerateInstanceExtensionProperties failed: ''
                         @ fmt_d (fill_result q))],
            Inl Aborted)
         else ([], scan_surface_extensions pf (elements q) (False, False, extension_names)))
      else ([], Inr (False, False, extension_names)))"

text \<open>What the first part of \<open>initialize_instance\<close> hands to \<open>vkCreateInstance\<close>: the
  filled parts of \<open>layer_names\<close> and \<open>extension_names\<close>, and the three flags.\<close>

record capability_set =
  layer_names :: "string list"
  extension_names :: "string list"
  supports_EXT_debug_utils :: bool
  supports_KHR_surface :: bool
  supports_KHR_display :: bool

text \<open>Lines 268--377 in sequence.\<close>

definition negotiate ::
  "platform \<Rightarrow> bool \<Rightarrow> driver \<Rightarrow> log_entry list \<times> (stop + capability_set)" where
  "negotiate pf debug drv =
     (case find_validation_layers debug drv of
        (l1, Inl e) \<Rightarrow> (l1, Inl e)
      | (l1, Inr lnames) \<Rightarrow>
          (case find_debug_extensions debug drv lnames of
             (l2, Inl e) \<Rightarrow> (l1 @ l2, Inl e)
           | (l2, Inr dbg) \<Rightarrow>
               (case find_surface_extensions pf drv
                       (if dbg then [VK_EXT_DEBUG_UTILS_EXTENSION_NAME] else []) of
                  (l3, Inl e) \<Rightarrow> (l1 @ l2 @ l3, Inl e)
                | (l3, Inr (surf, disp, enames)) \<Rightarrow>
                    (l1 @ l2 @ l3,
                     Inr \<lparr>layer_names = lnames, extension_names = enames,
                          supports_EXT_debug_utils = dbg, supports_KHR_surface = surf,
                          supports_KHR_display = disp\<rparr>))))"

subsection \<open>initialize_instance and destroy_instance (lines 243--260, 262--422)\<close>

definition init_debug_utils :: "driver \<Rightarrow> globals \<Rightarrow> log_entry list \<times> (stop + globals)" where
  "init_debug_utils drv g =
     (case vkCreateDebugUtilsMessengerEXT drv debug_utils_createinfo of
        (result, messenger) \<Rightarrow>
          if result \<noteq> VK_SUCCESS then
            ([(LOG_FATAL, ''vkCreateDebugUtilsMessengerEXT failed: '' @ fmt_d result)],
             Inl Aborted)
          else ([], Inr (g\<lparr>debug_messenger_g := messenger\<rparr>)))"

text \<open>\<open>appname\<close> only fills \<open>pApplicationName\<close>. A failing \<open>assert(!instance_)\<close>
  aborts.\<close>

definition initialize_instance ::
  "platform \<Rightarrow> string \<Rightarrow> bool \<Rightarrow> driver \<Rightarrow> globals \<Rightarrow> log_entry list \<times> (stop + globals)" where
  "initialize_instance pf appname debug drv g =
     (if instance_g g \<noteq> 0 then ([], Inl Aborted)
      else
        (case negotiate pf debug drv of
           (l, Inl e) \<Rightarrow> (l, Inl e)
         | (l, Inr cs) \<Rightarrow>
             (let g1 = g\<lparr>supports_EXT_debug_utils_g := supports_EXT_debug_utils cs,
                         supports_KHR_surface_g := supports_KHR_surface cs,
                         supports_KHR_display_g := supports_KHR_display cs\<rparr>
              in case vkCreateInstance drv (layer_names cs) (extension_names cs) of
                   (result, inst) \<Rightarrow>
                     if result \<noteq> VK_SUCCESS then
                       (l @ [(LOG_FATAL, ''vkCreateInstance failed: '' @ fmt_d result)],
                        Inl Aborted)
                     else
                       (let g2 = g1\<lparr>instance_g := inst\<rparr>
                        in if debug \<and> supports_EXT_debug_utils_g g2
                           then (case init_debug_utils drv g2 of (l', r) \<Rightarrow> (l @ l', r))
                           else (l, Inr g2)))))"

definition destroy_instance :: "globals \<Rightarrow> destroy_call list" where
  "destroy_instance g =
     (if debug_messenger_g g \<noteq> 0
      then [vkDestroyDebugUtilsMessengerEXT (instance_g g) (debug_messenger_g g)] else [])
     @ [vkDestroyInstance (instance_g g)]"

subsection \<open>main (lines 65--190)\<close>

text \<open>What argparse leaves in the three option variables, and \<open>argv[0]\<close>.\<close>

record args =
  verbose :: int
  list_available_devices :: int
  device_name :: "string option"
  argv0 :: string

text \<open>The environment of a run: the return values of the SDL calls, the driver, the
  platform the program was compiled for and the width of its \<open>long\<close>.\<close>

record env =
  SDL_Init :: int
  SDL_Vulkan_LoadLibrary :: int
  SDL_GetError :: string
  SDL_Vulkan_GetVkGetInstanceProcAddr :: handle
  drv :: driver
  target :: platform
  long_bits :: nat

datatype ending = Return int | Exit int | Abort | Undefined_behaviour

datatype exit_handler = SDL_Quit | SDL_Vulkan_UnloadLibrary | Destroy_instance

text \<open>A run as observed from outside: how it ended, the log, the standard output, the
  \<open>atexit\<close> handlers that ran, and the final value of
  \<open>selected_physical_device_index\<close> when the selection block was reached.\<close>

record outcome =
  ended :: ending
  log_output :: "log_entry list"
  stdout :: string
  at_exit :: "exit_handler list"
  selected_physical_device_index :: "int option"

definition stopped :: "stop \<Rightarrow> ending" where
  "stopped s = (case s of Aborted \<Rightarrow> Abort | Layer_names_overflow \<Rightarrow> Undefined_behaviour
                | Extension_names_overflow \<Rightarrow> Undefined_behaviour)"

text \<open>Returning from \<open>main\<close> and \<open>exit\<close> run the registered handlers, last registered
  first; \<open>abort\<close> runs none.\<close>

definition finish ::
  "ending \<Rightarrow> exit_handler list \<Rightarrow> log_entry list \<Rightarrow> string \<Rightarrow> int option \<Rightarrow> outcome" where
  "finish t registered l out sel =
     \<lparr>ended = t, log_output = l, stdout = out,
      at_exit = (case t of Return _ \<Rightarrow> rev registered | Exit _ \<Rightarrow> rev registered
                 | Abort \<Rightarrow> [] | Undefined_behaviour \<Rightarrow> []),
      selected_physical_device_index = sel\<rparr>"

text \<open>The loop of lines 142--147.\<close>

fun print_devices :: "nat \<Rightarrow> VkPhysicalDeviceProperties list \<Rightarrow> string" where
  "print_devices i [] = []"
| "print_devices i (p # ps) =
     ''Device '' @ fmt_u i @ '':'' @ newline
     @ ''    Name: '' @ deviceName p @ newline
     @ ''    ID: 0x'' @ fmt_08X (deviceID p) @ newline
     @ print_devices (Suc i) ps"

text \<open>The block of lines 112--189, entered with the log so far. \<open>malloc\<close> is taken to
  succeed.\<close>

definition list_and_select :: "args \<Rightarrow> env \<Rightarrow> log_entry list \<Rightarrow> outcome" where
  "list_and_select a e l =
     (let handlers = [SDL_Quit, SDL_Vulkan_UnloadLibrary, Destroy_instance];
          q = vkEnumeratePhysicalDevices (drv e)
      in if count_result q \<noteq> VK_SUCCESS then
           finish (Exit (- 1)) handlers
             (l @ [(LOG_FATAL, ''vkEnumeratePhysicalDevices failed'')]) [] None
         else if length (elements q) = 0 then
           finish (Exit 1) handlers
             (l @ [(LOG_ERROR, ''No available physical device found'')]) [] None
         else if fill_result q \<noteq> VK_SUCCESS then
           finish (Exit (- 1)) handlers
             (l @ [(LOG_FATAL, ''vkEnumeratePhysicalDevices failed'')]) [] None
         else
           (let props = map (vkGetPhysicalDeviceProperties (drv e)) (elements q)
            in if list_available_devices a \<noteq> 0 then
                 finish (Return 0) handlers l
                   (''Available physical devices: '' @ ''Count = '' @ fmt_u (length props)
                    @ newline @ print_devices 0 props)
                   None
               else
                 (let sel = select_physical_device (long_bits e) props (device_name a)
                  in finish (Return 0) handlers
                       (l @ [(LOG_INFO, ''Selected device: '' @ deviceName (props ! nat sel))])
                       [] (Some sel))))"

definition main :: "args \<Rightarrow> env \<Rightarrow> outcome" where
  "main a e =
     (let l0 = [(LOG_INFO, ''VERBOSE: '' @ (if verbose a \<noteq> 0 then ''YES'' else ''NO''))]
      in if SDL_Init e \<noteq> 0 then
           finish (Return (- 1)) []
             (l0 @ [(LOG_FATAL, ''SDL_Init failed: '' @ SDL_GetError e)]) [] None
         else if SDL_Vulkan_LoadLibrary e \<noteq> 0 then
           finish (Return (- 1)) [SDL_Quit]
             (l0 @ [(LOG_FATAL, ''SDL_Vulkan_LoadLibrary failed: '' @ SDL_GetError e)]) [] None
         else if SDL_Vulkan_GetVkGetInstanceProcAddr e = 0 then
           finish (Return (- 1)) [SDL_Quit, SDL_Vulkan_UnloadLibrary]
             (l0 @ [(LOG_FATAL, ''SDL_Vulkan_GetVkGetInstanceProcAddr failed: ''
                                @ SDL_GetError e)]) [] None
         else
           (case initialize_instance (target e) (argv0 a) (verbose a \<noteq> 0) (drv e)
                   globals_initial of
              (l1, Inl s) \<Rightarrow>
                finish (stopped s) [SDL_Quit, SDL_Vulkan_UnloadLibrary] (l0 @ l1) [] None
            | (l1, Inr g) \<Rightarrow> list_and_select a e (l0 @ l1)))"

section \<open>Notions used to state the properties\<close>





text \<open>The five steps of a context teardown, the step a destruction call belongs to, and
  whether the field a step releases is populated.\<close>

datatype teardown_step =
  Allocator_step | Image_list_step | Swapchain_step | Device_step | Surface_step

fun call_step :: "destroy_call \<Rightarrow> teardown_step option" where
  "call_step (vmaDestroyAllocator a) = Some Allocator_step"
| "call_step (free p) = Some Image_list_step"
| "call_step (vkDestroySwapchain d s) = Some Swapchain_step"
| "call_step (vkDestroyDevice d) = Some Device_step"
| "call_step (vkDestroySurfaceKHR i s) = Some Surface_step"
| "call_step (vkDestroyDebugUtilsMessengerEXT i m) = None"
| "call_step (vkDestroyInstance i) = None"

fun populated :: "Context \<Rightarrow> teardown_step \<Rightarrow> bool" where
  "populated ctx Allocator_step = (allocator ctx \<noteq> VK_NULL_HANDLE)"
| "populated ctx Image_list_step = (swapchain_images ctx \<noteq> 0)"
| "populated ctx Swapchain_step = (swapchain ctx \<noteq> VK_NULL_HANDLE)"
| "populated ctx Device_step = (device ctx \<noteq> VK_NULL_HANDLE)"
| "populated ctx Surface_step = (surface ctx \<noteq> VK_NULL_HANDLE)"

text \<open>Releasing the field of a step: the destructor of that step, applied to the
  handle the field holds (with the owning device or instance where the destructor takes
  one).\<close>

fun release_call :: "handle \<Rightarrow> Context \<Rightarrow> teardown_step \<Rightarrow> destroy_call" where
  "release_call inst ctx Allocator_step = vmaDestroyAllocator (allocator ctx)"
| "release_call inst ctx Image_list_step = free (swapchain_images ctx)"
| "release_call inst ctx Swapchain_step = vkDestroySwapchain (device ctx) (swapchain ctx)"
| "release_call inst ctx Device_step = vkDestroyDevice (device ctx)"
| "release_call inst ctx Surface_step = vkDestroySurfaceKHR inst (surface ctx)"

text \<open>The names the validation-layer loop looks for, and the names the surface loop looks
  for on a platform.\<close>

definition wanted_layer :: "string \<Rightarrow> bool" where
  "wanted_layer n =
     (n = ''VK_LAYER_KHRONOS_validation'' \<or> n = ''VK_LAYER_LUNARG_standard_validation'')"

definition platform_names :: "platform \<Rightarrow> string list" where
  "platform_names pf =
     (case pf of
        Linux \<Rightarrow> [''VK_KHR_wayland_surface'', ''VK_KHR_xcb_surface'', ''VK_KHR_xlib_surface'']
      | Windows \<Rightarrow> [''VK_KHR_win32_surface'']
      | Apple \<Rightarrow> []
      | Other_platform \<Rightarrow> [])"

definition wanted_extension :: "platform \<Rightarrow> string \<Rightarrow> bool" where
  "wanted_extension pf n =
     (n = VK_KHR_SURFACE_EXTENSION_NAME \<or> n = VK_KHR_DISPLAY_EXTENSION_NAME
      \<or> n \<in> set (platform_names pf))"

text \<open>A run gets as far as the device enumeration: SDL and the Vulkan loader start, and
  \<open>initialize_instance\<close> returns.\<close>

definition reaches_enumeration :: "args \<Rightarrow> env \<Rightarrow> bool" where
  "reaches_enumeration a e =
     (SDL_Init e = 0 \<and> SDL_Vulkan_LoadLibrary e = 0
      \<and> SDL_Vulkan_GetVkGetInstanceProcAddr e \<noteq> 0
      \<and> (case snd (initialize_instance (target e) (argv0 a) (verbose a \<noteq> 0) (drv e)
                     globals_initial) of
            Inl _ \<Rightarrow> False | Inr _ \<Rightarrow> True))"

text \<open>The log up to the device enumeration.\<close>

definition startup_log :: "args \<Rightarrow> env \<Rightarrow> log_entry list" where
  "startup_log a e =
     (LOG_INFO, ''VERBOSE: '' @ (if verbose a \<noteq> 0 then ''YES'' else ''NO''))
     # fst (initialize_instance (target e) (argv0 a) (verbose a \<noteq> 0) (drv e) globals_initial)"

text \<open>The descriptors the device enumeration produces (lines 126--136).\<close>

definition enumerated_properties :: "env \<Rightarrow> VkPhysicalDeviceProperties list" where
  "enumerated_properties e =
     map (vkGetPhysicalDeviceProperties (drv e)) (elements (vkEnumeratePhysicalDevices (drv e)))"

text \<open>A run in which the enumeration succeeds with at least one device.\<close>

definition enumeration_succeeds :: "env \<Rightarrow> bool" where
  "enumeration_succeeds e =
     (count_result (vkEnumeratePhysicalDevices (drv e)) = VK_SUCCESS
      \<and> elements (vkEnumeratePhysicalDevices (drv e)) \<noteq> []
      \<and> fill_result (vkEnumeratePhysicalDevices (drv e)) = VK_SUCCESS)"

text \<open>Drivers and environments for the concrete evaluations below: every query
  succeeds; the driver-wide extension query returns the given list.\<close>

definition ok_query :: "'a list \<Rightarrow> 'a enumeration" where
  "ok_query xs = \<lparr>count_result = VK_SUCCESS, fill_result = VK_SUCCESS, elements = xs\<rparr>"

definition test_driver :: "string list \<Rightarrow> string list \<Rightarrow> handle list \<Rightarrow> driver" where
  "test_driver layers exts devices =
     \<lparr>vkEnumerateInstanceLayerProperties = ok_query layers,
      vkEnumerateInstanceExtensionProperties =
        (\<lambda>l. case l of None \<Rightarrow> ok_query exts
                | Some _ \<Rightarrow> ok_query [''VK_EXT_debug_utils'']),
      vkCreateInstance = (\<lambda>ls es. (VK_SUCCESS, 1)),
      vkCreateDebugUtilsMessengerEXT = (\<lambda>ci. (VK_SUCCESS, 2)),
      vkEnumeratePhysicalDevices = ok_query devices,
      vkGetPhysicalDeviceProperties =
        (\<lambda>h. \<lparr>deviceName = (if h = 1 then ''Alpha'' else ''Beta''), deviceID = ucast h + 0xAB0\<rparr>)\<rparr>"

definition test_env :: "driver \<Rightarrow> env" where
  "test_env d =
     \<lparr>SDL_Init = 0, SDL_Vulkan_LoadLibrary = 0, SDL_GetError = [],
      SDL_Vulkan_GetVkGetInstanceProcAddr = 1, drv = d, target = Linux, long_bits = 64\<rparr>"

definition test_args :: "int \<Rightarrow> int \<Rightarrow> string option \<Rightarrow> args" where
  "test_args v l d = \<lparr>verbose = v, list_available_devices = l, device_name = d, argv0 = ''qpvk''\<rparr>"

section \<open>Device selection\<close>
















section \<open>Context teardown\<close>

text \<open>
  Claim C9. The destruction calls of \<open>destroy_context\<close> are, in this order, the
  release of the allocator, of the swapchain image list, of the swapchain, of the logical
  device and of the surface, each made on the handle its field holds and exactly when that
  field is populated; a context in which only the physical device is bound causes no
  destruction call.
\<close>

theorem destroy_context_order:
  "destroy_context inst ctx
     = map (release_call inst ctx)
         (filter (populated ctx)
            [Allocator_step, Image_list_step, Swapchain_step, Device_step, Surface_step])
   \<and> map call_step (destroy_context inst ctx)
     = map Some (filter (populated ctx)
         [Allocator_step, Image_list_step, Swapchain_step, Device_step, Surface_step])
   \<and> destroy_context inst (context_initial\<lparr>physical_device := pd\<rparr>) = []"
  by (simp add: destroy_context_def context_initial_def VK_NULL_HANDLE_def)

theorem destroy_context_order_witness:
  "destroy_context 5 \<lparr>physical_device = 6, device = 7, allocator = 3, surface = 4, swapchain = 8,
       supports_KHR_swapchain = True, graphics_queue_family = 0, present_queue_family = 0,
       num_swapchain_images = 2, swapchain_images = 9\<rparr>
     = [vmaDestroyAllocator 3, free 9, vkDestroySwapchain 7 8, vkDestroyDevice 7,
        vkDestroySurfaceKHR 5 4]
   \<and> destroy_context 5 (context_initial\<lparr>allocator := 3, surface := 4\<rparr>)
     = [vmaDestroyAllocator 3, vkDestroySurfaceKHR 5 4]
   \<and> destroy_context 5 (context_initial\<lparr>physical_device := 7\<rparr>) = []"
  using destroy_context_order [of 5 "\<lparr>physical_device = 6, device = 7, allocator = 3, surface = 4, swapchain = 8,
       supports_KHR_swapchain = True, graphics_queue_family = 0, present_queue_family = 0,
       num_swapchain_images = 2, swapchain_images = 9\<rparr>" 7]
    destroy_context_order [of 5 "context_initial\<lparr>allocator := 3, surface := 4\<rparr>" 7]
  by (simp add: context_initial_def VK_NULL_HANDLE_def)

section \<open>The debug callback\<close>

lemma sev_consts:
  "VK_DEBUG_UTILS_MESSAGE_SEVERITY_INFO_BIT_EXT \<noteq> VK_DEBUG_UTILS_MESSAGE_SEVERITY_WARNING_BIT_EXT"
  "VK_DEBUG_UTILS_MESSAGE_SEVERITY_INFO_BIT_EXT \<noteq> VK_DEBUG_UTILS_MESSAGE_SEVERITY_ERROR_BIT_EXT"
  "VK_DEBUG_UTILS_MESSAGE_SEVERITY_WARNING_BIT_EXT \<noteq> VK_DEBUG_UTILS_MESSAGE_SEVERITY_ERROR_BIT_EXT"
  by (simp_all add: VK_DEBUG_UTILS_MESSAGE_SEVERITY_INFO_BIT_EXT_def
      VK_DEBUG_UTILS_MESSAGE_SEVERITY_WARNING_BIT_EXT_def
      VK_DEBUG_UTILS_MESSAGE_SEVERITY_ERROR_BIT_EXT_def)

text \<open>
  Claim C7. The callback logs an error-severity message at the error level, a
  warning-severity message at the warning level and an informational message at the info
  level, each as \<open>[vk] \<close> followed by the message text; it logs nothing for any
  other severity; and it returns \<open>VK_FALSE\<close> for every severity and message.
\<close>

theorem callback_mapping:
  "snd (cgvk_HandleDebugCallback sev types d u) = VK_FALSE
   \<and> fst (cgvk_HandleDebugCallback VK_DEBUG_UTILS_MESSAGE_SEVERITY_ERROR_BIT_EXT types d u)
       = [(LOG_ERROR, ''[vk] '' @ pMessage d)]
   \<and> fst (cgvk_HandleDebugCallback VK_DEBUG_UTILS_MESSAGE_SEVERITY_WARNING_BIT_EXT types d u)
       = [(LOG_WARN, ''[vk] '' @ pMessage d)]
   \<and> fst (cgvk_HandleDebugCallback VK_DEBUG_UTILS_MESSAGE_SEVERITY_INFO_BIT_EXT types d u)
       = [(LOG_INFO, ''[vk] '' @ pMessage d)]
   \<and> (sev \<noteq> VK_DEBUG_UTILS_MESSAGE_SEVERITY_ERROR_BIT_EXT
        \<and> sev \<noteq> VK_DEBUG_UTILS_MESSAGE_SEVERITY_WARNING_BIT_EXT
        \<and> sev \<noteq> VK_DEBUG_UTILS_MESSAGE_SEVERITY_INFO_BIT_EXT
      \<longrightarrow> fst (cgvk_HandleDebugCallback sev types d u) = [])"
  using sev_consts by (simp add: cgvk_HandleDebugCallback_def Let_def)

theorem callback_mapping_witness:
  "snd (cgvk_HandleDebugCallback 1 1 \<lparr>pMessage = ''lost''\<rparr> 0) = 0
   \<and> fst (cgvk_HandleDebugCallback 0x1000 1 \<lparr>pMessage = ''lost''\<rparr> 0) = [(LOG_ERROR, ''[vk] lost'')]
   \<and> fst (cgvk_HandleDebugCallback 1 1 \<lparr>pMessage = ''lost''\<rparr> 0) = []"
  using callback_mapping [of 1 1 "\<lparr>pMessage = ''lost''\<rparr>" 0]
  by (simp add: VK_DEBUG_UTILS_MESSAGE_SEVERITY_INFO_BIT_EXT_def
      VK_DEBUG_UTILS_MESSAGE_SEVERITY_WARNING_BIT_EXT_def
      VK_DEBUG_UTILS_MESSAGE_SEVERITY_ERROR_BIT_EXT_def VK_FALSE_def)

text \<open>
  Claim C10. The messenger is registered with the error and warning bits only, so the
  informational bit is not in its mask, the driver does not deliver an informational event
  to it, and no event handled through this messenger is logged at the info level, although
  the callback itself logs an informational message at the info level.
\<close>

theorem messenger_never_informational:
  "messageSeverity debug_utils_createinfo
     = VK_DEBUG_UTILS_MESSAGE_SEVERITY_ERROR_BIT_EXT OR VK_DEBUG_UTILS_MESSAGE_SEVERITY_WARNING_BIT_EXT
   \<and> messageSeverity debug_utils_createinfo AND VK_DEBUG_UTILS_MESSAGE_SEVERITY_INFO_BIT_EXT = 0
   \<and> \<not> messenger_delivers debug_utils_createinfo VK_DEBUG_UTILS_MESSAGE_SEVERITY_INFO_BIT_EXT types
   \<and> (\<forall>entry \<in> set (messenger_event debug_utils_createinfo sev types d). fst entry \<noteq> LOG_INFO)
   \<and> fst (cgvk_HandleDebugCallback VK_DEBUG_UTILS_MESSAGE_SEVERITY_INFO_BIT_EXT types d u)
       = [(LOG_INFO, ''[vk] '' @ pMessage d)]"
  by (auto simp add: messenger_event_def messenger_delivers_def cgvk_HandleDebugCallback_def Let_def debug_utils_createinfo_def VK_DEBUG_UTILS_MESSAGE_SEVERITY_INFO_BIT_EXT_def
      VK_DEBUG_UTILS_MESSAGE_SEVERITY_WARNING_BIT_EXT_def
      VK_DEBUG_UTILS_MESSAGE_SEVERITY_ERROR_BIT_EXT_def split: if_splits)

theorem messenger_never_informational_witness:
  "(LOG_ERROR, ''[vk] lost'')
     \<in> set (messenger_event debug_utils_createinfo VK_DEBUG_UTILS_MESSAGE_SEVERITY_ERROR_BIT_EXT
              VK_DEBUG_UTILS_MESSAGE_TYPE_VALIDATION_BIT_EXT \<lparr>pMessage = ''lost''\<rparr>)
   \<and> fst (LOG_ERROR, ''[vk] lost'') \<noteq> LOG_INFO"
  using messenger_never_informational
    [of VK_DEBUG_UTILS_MESSAGE_TYPE_VALIDATION_BIT_EXT
        VK_DEBUG_UTILS_MESSAGE_SEVERITY_ERROR_BIT_EXT "\<lparr>pMessage = ''lost''\<rparr>" 0]
  by (simp add: messenger_event_def messenger_delivers_def cgvk_HandleDebugCallback_def
      Let_def debug_utils_createinfo_def VK_DEBUG_UTILS_MESSAGE_SEVERITY_INFO_BIT_EXT_def
      VK_DEBUG_UTILS_MESSAGE_SEVERITY_WARNING_BIT_EXT_def
      VK_DEBUG_UTILS_MESSAGE_SEVERITY_ERROR_BIT_EXT_def
      VK_DEBUG_UTILS_MESSAGE_TYPE_GENERAL_BIT_EXT_def
      VK_DEBUG_UTILS_MESSAGE_TYPE_VALIDATION_BIT_EXT_def
      VK_DEBUG_UTILS_MESSAGE_TYPE_PERFORMANCE_BIT_EXT_def)

section \<open>The run of main\<close>

lemma main_reaches:
  "reaches_enumeration a e \<Longrightarrow> main a e = list_and_select a e (startup_log a e)"
  by (cases "initialize_instance (target e) (argv0 a) (verbose a \<noteq> 0) (drv e) globals_initial")
     (auto simp: reaches_enumeration_def main_def startup_log_def Let_def split: sum.splits)

lemma stopped_not_exit: "stopped s \<noteq> Exit n"
  by (cases s) (simp_all add: stopped_def)

lemma main_not_reaching:
  "\<not> reaches_enumeration a e \<Longrightarrow> ended (main a e) \<noteq> Exit n"
  by (cases "initialize_instance (target e) (argv0 a) (verbose a \<noteq> 0) (drv e) globals_initial")
     (auto simp: reaches_enumeration_def main_def finish_def Let_def stopped_not_exit
       split: sum.splits)

lemma test_reaches:
  "reaches_enumeration (test_args v l d) (test_env (test_driver [] [] devs))"
  by (simp add: reaches_enumeration_def test_args_def test_env_def test_driver_def
      initialize_instance_def negotiate_def find_validation_layers_def
      find_debug_extensions_def find_surface_extensions_def ok_query_def VK_SUCCESS_def
      globals_initial_def VK_NULL_HANDLE_def Let_def init_debug_utils_def)

lemma test_startup_log:
  "startup_log (test_args 0 l d) (test_env (test_driver [] [] devs)) = [(LOG_INFO, ''VERBOSE: NO'')]"
  by (simp add: startup_log_def test_args_def test_env_def test_driver_def
      initialize_instance_def negotiate_def find_validation_layers_def
      find_debug_extensions_def find_surface_extensions_def ok_query_def VK_SUCCESS_def
      globals_initial_def VK_NULL_HANDLE_def Let_def init_debug_utils_def)

text \<open>
  Claim C6. When the run reaches the device enumeration and the count query succeeds with
  zero devices, the program logs \<open>No available physical device found\<close> at the error
  level and exits with code 1, and the selection block is never entered. When the count
  query fails, it logs at the fatal level and exits with code -1. Exit code 1 arises in no
  other way.
\<close>

theorem zero_devices_exit_1:
  "(reaches_enumeration a e
      \<and> count_result (vkEnumeratePhysicalDevices (drv e)) = VK_SUCCESS
      \<and> elements (vkEnumeratePhysicalDevices (drv e)) = []
    \<longrightarrow> ended (main a e) = Exit 1
        \<and> log_output (main a e)
            = startup_log a e @ [(LOG_ERROR, ''No available physical device found'')]
        \<and> stdout (main a e) = []
        \<and> selected_physical_device_index (main a e) = None)
   \<and> (reaches_enumeration a e
      \<and> count_result (vkEnumeratePhysicalDevices (drv e)) \<noteq> VK_SUCCESS
    \<longrightarrow> ended (main a e) = Exit (- 1)
        \<and> log_output (main a e)
            = startup_log a e @ [(LOG_FATAL, ''vkEnumeratePhysicalDevices failed'')]
        \<and> selected_physical_device_index (main a e) = None)
   \<and> (ended (main a e) = Exit 1
    \<longrightarrow> reaches_enumeration a e
        \<and> count_result (vkEnumeratePhysicalDevices (drv e)) = VK_SUCCESS
        \<and> elements (vkEnumeratePhysicalDevices (drv e)) = [])"
proof -
  have zero: "ended (main a e) = Exit 1
        \<and> log_output (main a e)
            = startup_log a e @ [(LOG_ERROR, ''No available physical device found'')]
        \<and> stdout (main a e) = []
        \<and> selected_physical_device_index (main a e) = None"
    if "reaches_enumeration a e"
      "count_result (vkEnumeratePhysicalDevices (drv e)) = VK_SUCCESS"
      "elements (vkEnumeratePhysicalDevices (drv e)) = []"
    using that by (simp add: main_reaches list_and_select_def finish_def Let_def)
  have failing: "ended (main a e) = Exit (- 1)
        \<and> log_output (main a e)
            = startup_log a e @ [(LOG_FATAL, ''vkEnumeratePhysicalDevices failed'')]
        \<and> selected_physical_device_index (main a e) = None"
    if "reaches_enumeration a e"
      "count_result (vkEnumeratePhysicalDevices (drv e)) \<noteq> VK_SUCCESS"
    using that by (simp add: main_reaches list_and_select_def finish_def Let_def)
  have only: "reaches_enumeration a e
        \<and> count_result (vkEnumeratePhysicalDevices (drv e)) = VK_SUCCESS
        \<and> elements (vkEnumeratePhysicalDevices (drv e)) = []"
    if ex: "ended (main a e) = Exit 1"
  proof -
    have r: "reaches_enumeration a e"
      using ex main_not_reaching [of a e 1] by blast
    with ex have "ended (list_and_select a e (startup_log a e)) = Exit 1"
      by (simp add: main_reaches)
    then have "count_result (vkEnumeratePhysicalDevices (drv e)) = VK_SUCCESS
        \<and> elements (vkEnumeratePhysicalDevices (drv e)) = []"
      by (simp add: list_and_select_def finish_def Let_def split: if_splits)
    with r show ?thesis by simp
  qed
  from zero failing only show ?thesis by blast
qed

theorem zero_devices_exit_1_witness:
  "reaches_enumeration (test_args 0 0 None) (test_env (test_driver [] [] []))
   \<and> ended (main (test_args 0 0 None) (test_env (test_driver [] [] []))) = Exit 1
   \<and> log_output (main (test_args 0 0 None) (test_env (test_driver [] [] [])))
       = [(LOG_INFO, ''VERBOSE: NO''), (LOG_ERROR, ''No available physical device found'')]
   \<and> count_result (vkEnumeratePhysicalDevices
         (drv (test_env ((test_driver [] [] [])
            \<lparr>vkEnumeratePhysicalDevices := \<lparr>count_result = - 3, fill_result = 0, elements = []\<rparr>\<rparr>))))
       \<noteq> VK_SUCCESS
   \<and> ended (main (test_args 0 0 None) (test_env ((test_driver [] [] [])
            \<lparr>vkEnumeratePhysicalDevices := \<lparr>count_result = - 3, fill_result = 0, elements = []\<rparr>\<rparr>)))
       = Exit (- 1)"
proof -
  let ?a = "test_args 0 0 None"
  let ?e = "test_env (test_driver [] [] [])"
  let ?e' = "test_env ((test_driver [] [] [])
            \<lparr>vkEnumeratePhysicalDevices := \<lparr>count_result = - 3, fill_result = 0, elements = []\<rparr>\<rparr>)"
  have r: "reaches_enumeration ?a ?e" by (rule test_reaches)
  have r': "reaches_enumeration ?a ?e'"
    by (simp add: reaches_enumeration_def test_args_def test_env_def test_driver_def
      initialize_instance_def negotiate_def find_validation_layers_def
      find_debug_extensions_def find_surface_extensions_def ok_query_def VK_SUCCESS_def
      globals_initial_def VK_NULL_HANDLE_def Let_def init_debug_utils_def)
  have q: "count_result (vkEnumeratePhysicalDevices (drv ?e)) = VK_SUCCESS"
    "elements (vkEnumeratePhysicalDevices (drv ?e)) = []"
    by (simp_all add: test_env_def test_driver_def ok_query_def)
  have q': "count_result (vkEnumeratePhysicalDevices (drv ?e')) \<noteq> VK_SUCCESS"
    by (simp add: test_env_def test_driver_def ok_query_def VK_SUCCESS_def)
  from zero_devices_exit_1 [of ?a ?e] r q zero_devices_exit_1 [of ?a ?e'] r' q'
  show ?thesis by (simp add: test_startup_log)
qed





section \<open>Capability negotiation\<close>

lemma scan_layers_Cons:
  "scan_layers (l # ls) acc =
     (if wanted_layer l
      then (case store_name 2 Layer_names_overflow acc l of
              Inl e \<Rightarrow> Inl e | Inr acc' \<Rightarrow> scan_layers ls acc')
      else scan_layers ls acc)"
  by (auto simp: wanted_layer_def)

lemma scan_layers_eq:
  "length acc \<le> 2 \<Longrightarrow>
   scan_layers ls acc =
     (if length acc + length (filter wanted_layer ls) \<le> 2
      then Inr (acc @ filter wanted_layer ls) else Inl Layer_names_overflow)"
proof (induction ls arbitrary: acc)
  case Nil
  then show ?case by simp
next
  case (Cons l ls)
  show ?case
  proof (cases "wanted_layer l \<and> length acc < 2")
    case True
    then have "length (acc @ [l]) \<le> 2" by simp
    from Cons.IH [OF this] True show ?thesis
      by (simp add: scan_layers_Cons store_name_def del: scan_layers.simps)
  next
    case False
    with Cons show ?thesis
      by (auto simp add: scan_layers_Cons store_name_def simp del: scan_layers.simps)
  qed
qed

lemma platform_surface_extensions_eq:
  "extname \<noteq> VK_KHR_SURFACE_EXTENSION_NAME \<Longrightarrow> extname \<noteq> VK_KHR_DISPLAY_EXTENSION_NAME \<Longrightarrow>
   platform_surface_extensions pf extname names =
     (if wanted_extension pf extname
      then store_name 16 Extension_names_overflow names extname else Inr names)"
  by (cases pf)
     (auto simp: platform_surface_extensions_def store_if_named_def wanted_extension_def
       platform_names_def store_name_def)

lemma scan_surface_extensions_Cons:
  "scan_surface_extensions pf (x # xs) (surf, disp, names) =
     (if wanted_extension pf x
      then (case store_name 16 Extension_names_overflow names x of
              Inl e \<Rightarrow> Inl e
            | Inr names' \<Rightarrow>
                scan_surface_extensions pf xs
                  (surf \<or> x = VK_KHR_SURFACE_EXTENSION_NAME,
                   disp \<or> x = VK_KHR_DISPLAY_EXTENSION_NAME, names'))
      else scan_surface_extensions pf xs (surf, disp, names))"
proof -
  have sd: "VK_KHR_SURFACE_EXTENSION_NAME \<noteq> VK_KHR_DISPLAY_EXTENSION_NAME"
    by (simp add: VK_KHR_SURFACE_EXTENSION_NAME_def VK_KHR_DISPLAY_EXTENSION_NAME_def)
  consider "x = VK_KHR_SURFACE_EXTENSION_NAME" | "x = VK_KHR_DISPLAY_EXTENSION_NAME"
    | "x \<noteq> VK_KHR_SURFACE_EXTENSION_NAME" "x \<noteq> VK_KHR_DISPLAY_EXTENSION_NAME"
    by blast
  then show ?thesis
  proof cases
    case 1
    then show ?thesis using sd by (auto simp: wanted_extension_def split: sum.split)
  next
    case 2
    then show ?thesis using sd by (auto simp: wanted_extension_def split: sum.split)
  next
    case 3
    then show ?thesis
      by (simp add: platform_surface_extensions_eq split: sum.split)
  qed
qed

lemma wanted_surface_display:
  "wanted_extension pf VK_KHR_SURFACE_EXTENSION_NAME"
  "wanted_extension pf VK_KHR_DISPLAY_EXTENSION_NAME"
  by (simp_all add: wanted_extension_def)

lemma scan_surface_extensions_eq:
  "length names \<le> 16 \<Longrightarrow>
   scan_surface_extensions pf exts (surf, disp, names) =
     (if length names + length (filter (wanted_extension pf) exts) \<le> 16
      then Inr (surf \<or> VK_KHR_SURFACE_EXTENSION_NAME \<in> set exts,
                disp \<or> VK_KHR_DISPLAY_EXTENSION_NAME \<in> set exts,
                names @ filter (wanted_extension pf) exts)
      else Inl Extension_names_overflow)"
proof (induction exts arbitrary: surf disp names)
  case Nil
  then show ?case by simp
next
  case (Cons x xs)
  show ?case
  proof (cases "wanted_extension pf x \<and> length names < 16")
    case True
    then have "length (names @ [x]) \<le> 16" by simp
    from Cons.IH [OF this] True show ?thesis
      by (auto simp add: scan_surface_extensions_Cons store_name_def
          simp del: scan_surface_extensions.simps)
  next
    case False
    with Cons show ?thesis
      by (auto simp add: scan_surface_extensions_Cons store_name_def wanted_surface_display
          simp del: scan_surface_extensions.simps)
  qed
qed

lemma foldl_debug_flag:
  "foldl (\<lambda>s extensionName. if extensionName = n then True else s) b xs = (b \<or> n \<in> set xs)"
  by (induction xs arbitrary: b) auto

lemma scan_layer_extensions_Inr:
  "scan_layer_extensions d ls s = (l, Inr b) \<Longrightarrow>
   b = (s \<or> (\<exists>layer \<in> set ls. VK_EXT_DEBUG_UTILS_EXTENSION_NAME
                \<in> set (elements (vkEnumerateInstanceExtensionProperties d (Some layer)))))"
proof (induction ls arbitrary: s l)
  case Nil
  then show ?case by simp
next
  case (Cons x xs)
  let ?q = "vkEnumerateInstanceExtensionProperties d (Some x)"
  show ?case
  proof (cases "elements ?q = []")
    case True
    with Cons.prems have "scan_layer_extensions d xs s = (l, Inr b)"
      by (simp add: Let_def split: if_splits)
    from Cons.IH [OF this] True show ?thesis by simp
  next
    case False
    with Cons.prems have
      "scan_layer_extensions d xs
         (s \<or> VK_EXT_DEBUG_UTILS_EXTENSION_NAME \<in> set (elements ?q)) = (l, Inr b)"
      by (simp add: Let_def foldl_debug_flag split: if_splits)
    from Cons.IH [OF this] show ?thesis by auto
  qed
qed

lemma find_validation_layers_Inr:
  "find_validation_layers debug d = (l, Inr ln) \<Longrightarrow>
   ln = (if debug then filter wanted_layer (elements (vkEnumerateInstanceLayerProperties d))
         else [])
   \<and> length ln \<le> 2"
  by (auto simp: find_validation_layers_def Let_def scan_layers_eq split: if_splits)

lemma find_validation_layers_no_extension_overflow:
  "snd (find_validation_layers debug d) \<noteq> Inl Extension_names_overflow"
  by (simp add: find_validation_layers_def Let_def scan_layers_eq)

lemma scan_layer_extensions_stop:
  "snd (scan_layer_extensions d ls s) \<noteq> Inl Extension_names_overflow"
  by (induction ls arbitrary: s) (simp_all add: Let_def)

lemma find_debug_extensions_Inr:
  "find_debug_extensions debug d ln = (l, Inr b) \<Longrightarrow>
   b = (debug \<and> (\<exists>layer \<in> set ln. VK_EXT_DEBUG_UTILS_EXTENSION_NAME
                \<in> set (elements (vkEnumerateInstanceExtensionProperties d (Some layer)))))"
  using scan_layer_extensions_Inr [of d ln False l b]
  by (auto simp: find_debug_extensions_def split: if_splits)

lemma find_debug_extensions_stop:
  "snd (find_debug_extensions debug d ln) \<noteq> Inl Extension_names_overflow"
  by (simp add: find_debug_extensions_def scan_layer_extensions_stop)

lemma find_surface_extensions_Inr:
  "length names \<le> 16 \<Longrightarrow> find_surface_extensions pf d names = (l, Inr (s, dd, en)) \<Longrightarrow>
   en = names @ filter (wanted_extension pf)
                  (elements (vkEnumerateInstanceExtensionProperties d None))
   \<and> length en \<le> 16"
  by (auto simp: find_surface_extensions_def Let_def scan_surface_extensions_eq
      split: if_splits)

lemma find_surface_extensions_room:
  "length names + length (filter (wanted_extension pf)
      (elements (vkEnumerateInstanceExtensionProperties d None))) \<le> 16 \<Longrightarrow>
   snd (find_surface_extensions pf d names) \<noteq> Inl Extension_names_overflow"
  by (simp add: find_surface_extensions_def Let_def scan_surface_extensions_eq)

lemma negotiate_Inr:
  assumes "negotiate pf debug d = (l, Inr cs)"
  shows "layer_names cs =
           (if debug then filter wanted_layer (elements (vkEnumerateInstanceLayerProperties d))
            else [])"
    and "supports_EXT_debug_utils cs =
           (debug \<and> (\<exists>layer \<in> set (layer_names cs). VK_EXT_DEBUG_UTILS_EXTENSION_NAME
              \<in> set (elements (vkEnumerateInstanceExtensionProperties d (Some layer)))))"
    and "extension_names cs =
           (if supports_EXT_debug_utils cs then [VK_EXT_DEBUG_UTILS_EXTENSION_NAME] else [])
           @ filter (wanted_extension pf)
               (elements (vkEnumerateInstanceExtensionProperties d None))"
    and "length (layer_names cs) \<le> 2" and "length (extension_names cs) \<le> 16"
proof -
  obtain l1 r1 where r1: "find_validation_layers debug d = (l1, r1)"
    by (cases "find_validation_layers debug d")
  with assms obtain ln where ln: "r1 = Inr ln"
    by (cases r1) (auto simp: negotiate_def)
  obtain l2 r2 where r2: "find_debug_extensions debug d ln = (l2, r2)"
    by (cases "find_debug_extensions debug d ln")
  with assms r1 ln obtain dbg where dbg: "r2 = Inr dbg"
    by (cases r2) (auto simp: negotiate_def)
  let ?init = "if dbg then [VK_EXT_DEBUG_UTILS_EXTENSION_NAME] else []"
  obtain l3 r3 where r3: "find_surface_extensions pf d ?init = (l3, r3)"
    by (cases "find_surface_extensions pf d ?init")
  with assms r1 ln r2 dbg obtain s dd en where en: "r3 = Inr (s, dd, en)"
    by (cases r3) (auto simp: negotiate_def)
  from assms r1 ln r2 dbg r3 en have cs:
    "cs = \<lparr>layer_names = ln, extension_names = en, supports_EXT_debug_utils = dbg,
           supports_KHR_surface = s, supports_KHR_display = dd\<rparr>"
    by (simp add: negotiate_def)
  note a = find_validation_layers_Inr [OF r1 [unfolded ln]]
  note b = find_debug_extensions_Inr [OF r2 [unfolded dbg]]
  have "length ?init \<le> 16" by simp
  note c = find_surface_extensions_Inr [OF this r3 [unfolded en]]
  show "layer_names cs =
           (if debug then filter wanted_layer (elements (vkEnumerateInstanceLayerProperties d))
            else [])"
    using a cs by simp
  show "supports_EXT_debug_utils cs =
           (debug \<and> (\<exists>layer \<in> set (layer_names cs). VK_EXT_DEBUG_UTILS_EXTENSION_NAME
              \<in> set (elements (vkEnumerateInstanceExtensionProperties d (Some layer)))))"
    using b cs by simp
  show "extension_names cs =
           (if supports_EXT_debug_utils cs then [VK_EXT_DEBUG_UTILS_EXTENSION_NAME] else [])
           @ filter (wanted_extension pf)
               (elements (vkEnumerateInstanceExtensionProperties d None))"
    using c cs by simp
  from a have "length ln \<le> 2" by (rule conjunct2)
  then show "length (layer_names cs) \<le> 2" by (simp add: cs)
  from c have "length en \<le> 16" by (rule conjunct2)
  then show "length (extension_names cs) \<le> 16" by (simp add: cs)
qed

lemma negotiate_no_overflow:
  assumes "length (filter (wanted_extension pf)
      (elements (vkEnumerateInstanceExtensionProperties d None))) \<le> 15"
  shows "snd (negotiate pf debug d) \<noteq> Inl Extension_names_overflow"
proof -
  obtain l1 r1 where r1: "find_validation_layers debug d = (l1, r1)"
    by (cases "find_validation_layers debug d")
  show ?thesis
  proof (cases r1)
    case (Inl e)
    with r1 find_validation_layers_no_extension_overflow [of debug d] show ?thesis
      by (simp add: negotiate_def)
  next
    case (Inr ln)
    obtain l2 r2 where r2: "find_debug_extensions debug d ln = (l2, r2)"
      by (cases "find_debug_extensions debug d ln")
    show ?thesis
    proof (cases r2)
      case (Inl e)
      with r1 Inr r2 find_debug_extensions_stop [of debug d ln] show ?thesis
        by (simp add: negotiate_def)
    next
      case dbg: (Inr dbg)
      let ?init = "if dbg then [VK_EXT_DEBUG_UTILS_EXTENSION_NAME] else []"
      have "length ?init + length (filter (wanted_extension pf)
              (elements (vkEnumerateInstanceExtensionProperties d None))) \<le> 16"
        using assms by simp
      from find_surface_extensions_room [OF this] r1 Inr r2 dbg show ?thesis
        by (cases "find_surface_extensions pf d ?init")
           (auto simp: negotiate_def split: sum.splits)
    qed
  qed
qed

lemma not_wanted_debug_utils: "\<not> wanted_extension pf VK_EXT_DEBUG_UTILS_EXTENSION_NAME"
  by (cases pf)
     (simp_all add: wanted_extension_def platform_names_def VK_EXT_DEBUG_UTILS_EXTENSION_NAME_def
       VK_KHR_SURFACE_EXTENSION_NAME_def VK_KHR_DISPLAY_EXTENSION_NAME_def)

lemma count_list_filter:
  "count_list (filter P xs) n = (if P n then count_list xs n else 0)"
  by (induction xs) auto

lemma wanted_extension_few:
  assumes "distinct xs"
  shows "length (filter (wanted_extension pf) xs) \<le> 5"
proof -
  let ?all = "VK_KHR_SURFACE_EXTENSION_NAME # VK_KHR_DISPLAY_EXTENSION_NAME # platform_names pf"
  have "distinct (filter (wanted_extension pf) xs)"
    using assms by simp
  then have "length (filter (wanted_extension pf) xs)
               = card (set (filter (wanted_extension pf) xs))"
    by (rule distinct_card [symmetric])
  also have "set (filter (wanted_extension pf) xs) \<subseteq> set ?all"
    by (auto simp: wanted_extension_def)
  then have "card (set (filter (wanted_extension pf) xs)) \<le> card (set ?all)"
    by (intro card_mono) simp_all
  also have "\<dots> \<le> length ?all" by (rule card_length)
  also have "\<dots> \<le> 5" by (cases pf) (simp_all add: platform_names_def)
  finally show ?thesis .
qed

lemmas negotiate_defs =
  negotiate_def find_validation_layers_def find_debug_extensions_def
  find_surface_extensions_def platform_surface_extensions_def store_if_named_def
  store_name_def Let_def

lemmas test_defs =
  test_driver_def test_env_def test_args_def ok_query_def VK_SUCCESS_def
  VK_EXT_DEBUG_UTILS_EXTENSION_NAME_def VK_KHR_SURFACE_EXTENSION_NAME_def
  VK_KHR_DISPLAY_EXTENSION_NAME_def

text \<open>
  Claim C2. With the debug flag off, whatever the driver reports, the layer search returns
  no layer and the debug-extension search returns false without a query; so every
  negotiated capability set has an empty layer list, a false diagnostics flag and no
  \<open>VK_EXT_debug_utils\<close> among its extension names, and after
  \<open>initialize_instance\<close> the global flag is false and no messenger is installed.
\<close>

theorem debug_off_no_layers_no_diagnostics:
  "find_validation_layers False d = ([], Inr [])
   \<and> find_debug_extensions False d ln = ([], Inr False)
   \<and> (\<forall>l cs. negotiate pf False d = (l, Inr cs) \<longrightarrow>
         layer_names cs = [] \<and> \<not> supports_EXT_debug_utils cs
         \<and> VK_EXT_DEBUG_UTILS_EXTENSION_NAME \<notin> set (extension_names cs))
   \<and> (\<forall>l g. initialize_instance pf appname False d globals_initial = (l, Inr g) \<longrightarrow>
         \<not> supports_EXT_debug_utils_g g \<and> debug_messenger_g g = VK_NULL_HANDLE)"
proof -
  have neg: "layer_names cs = [] \<and> \<not> supports_EXT_debug_utils cs
         \<and> VK_EXT_DEBUG_UTILS_EXTENSION_NAME \<notin> set (extension_names cs)"
    if "negotiate pf False d = (l, Inr cs)" for l cs
    using negotiate_Inr(1-3) [OF that] not_wanted_debug_utils [of pf] by simp
  have init: "\<not> supports_EXT_debug_utils_g g \<and> debug_messenger_g g = VK_NULL_HANDLE"
    if g: "initialize_instance pf appname False d globals_initial = (l, Inr g)" for l g
  proof -
    obtain l1 r1 where r1: "negotiate pf False d = (l1, r1)"
      by (cases "negotiate pf False d")
    with g obtain cs where cs: "r1 = Inr cs"
      by (cases r1) (auto simp: initialize_instance_def globals_initial_def VK_NULL_HANDLE_def)
    from neg [OF r1 [unfolded cs]] have "\<not> supports_EXT_debug_utils cs" by simp
    with g r1 cs show ?thesis
      by (auto simp: initialize_instance_def globals_initial_def VK_NULL_HANDLE_def Let_def
          split: prod.splits if_splits)
  qed
  show ?thesis
    using neg init by (simp add: find_validation_layers_def find_debug_extensions_def)
qed

theorem debug_off_no_layers_no_diagnostics_witness:
  "negotiate Linux False
      (test_driver [''VK_LAYER_KHRONOS_validation''] [''VK_EXT_debug_utils'', ''VK_KHR_surface''] [])
     = ([], Inr \<lparr>layer_names = [], extension_names = [''VK_KHR_surface''],
                 supports_EXT_debug_utils = False, supports_KHR_surface = True,
                 supports_KHR_display = False\<rparr>)
   \<and> debug_messenger_g (projr (snd (initialize_instance Linux ''qpvk'' False
         (test_driver [''VK_LAYER_KHRONOS_validation''] [''VK_EXT_debug_utils'', ''VK_KHR_surface''] [])
         globals_initial))) = VK_NULL_HANDLE"
  using debug_off_no_layers_no_diagnostics
    [of "test_driver [''VK_LAYER_KHRONOS_validation''] [''VK_EXT_debug_utils'', ''VK_KHR_surface''] []"
        "[]" Linux "''qpvk''"]
  by (simp add: negotiate_defs test_defs initialize_instance_def globals_initial_def
      VK_NULL_HANDLE_def)

text \<open>
  Claim C3. Every negotiated layer name is in the result of the layer query. Every
  negotiated extension name is either \<open>VK_EXT_debug_utils\<close>, found in the
  extension query of some negotiated layer, or one of the surface, display and platform
  surface names, found in the driver-wide extension query.
\<close>

theorem negotiated_names_were_discovered:
  "negotiate pf debug d = (l, Inr cs) \<longrightarrow>
     set (layer_names cs) \<subseteq> set (elements (vkEnumerateInstanceLayerProperties d))
     \<and> (\<forall>x \<in> set (extension_names cs).
          (x = VK_EXT_DEBUG_UTILS_EXTENSION_NAME
           \<and> (\<exists>layer \<in> set (layer_names cs).
                 x \<in> set (elements (vkEnumerateInstanceExtensionProperties d (Some layer)))))
          \<or> (wanted_extension pf x
              \<and> x \<in> set (elements (vkEnumerateInstanceExtensionProperties d None))))"
proof
  assume a: "negotiate pf debug d = (l, Inr cs)"
  note n = negotiate_Inr(1-3) [OF a]
  have layers: "set (layer_names cs) \<subseteq> set (elements (vkEnumerateInstanceLayerProperties d))"
    using n(1) by auto
  have exts: "(x = VK_EXT_DEBUG_UTILS_EXTENSION_NAME
           \<and> (\<exists>layer \<in> set (layer_names cs).
                 x \<in> set (elements (vkEnumerateInstanceExtensionProperties d (Some layer)))))
          \<or> (wanted_extension pf x
              \<and> x \<in> set (elements (vkEnumerateInstanceExtensionProperties d None)))"
    if "x \<in> set (extension_names cs)" for x
  proof (cases "x \<in> set (filter (wanted_extension pf)
                  (elements (vkEnumerateInstanceExtensionProperties d None)))")
    case True
    then show ?thesis by simp
  next
    case False
    with that n(3) have "supports_EXT_debug_utils cs" "x = VK_EXT_DEBUG_UTILS_EXTENSION_NAME"
      by (auto split: if_splits)
    with n(2) show ?thesis by blast
  qed
  from layers exts show "set (layer_names cs) \<subseteq> set (elements (vkEnumerateInstanceLayerProperties d))
     \<and> (\<forall>x \<in> set (extension_names cs).
          (x = VK_EXT_DEBUG_UTILS_EXTENSION_NAME
           \<and> (\<exists>layer \<in> set (layer_names cs).
                 x \<in> set (elements (vkEnumerateInstanceExtensionProperties d (Some layer)))))
          \<or> (wanted_extension pf x
              \<and> x \<in> set (elements (vkEnumerateInstanceExtensionProperties d None))))"
    by blast
qed

theorem negotiated_names_were_discovered_witness:
  "negotiate Linux True
      (test_driver [''VK_LAYER_KHRONOS_validation'', ''VK_LAYER_other'']
                   [''VK_KHR_surface'', ''VK_KHR_xcb_surface'', ''VK_KHR_other''] [])
     = ([], Inr \<lparr>layer_names = [''VK_LAYER_KHRONOS_validation''],
                 extension_names = [''VK_EXT_debug_utils'', ''VK_KHR_surface'', ''VK_KHR_xcb_surface''],
                 supports_EXT_debug_utils = True, supports_KHR_surface = True,
                 supports_KHR_display = False\<rparr>)
   \<and> ''VK_KHR_xcb_surface'' \<in> set (elements (vkEnumerateInstanceExtensionProperties
        (test_driver [''VK_LAYER_KHRONOS_validation'', ''VK_LAYER_other'']
                   [''VK_KHR_surface'', ''VK_KHR_xcb_surface'', ''VK_KHR_other''] []) None))"
  using negotiated_names_were_discovered
    [of Linux True "test_driver [''VK_LAYER_KHRONOS_validation'', ''VK_LAYER_other'']
                   [''VK_KHR_surface'', ''VK_KHR_xcb_surface'', ''VK_KHR_other''] []" "[]"]
  by (simp add: negotiate_defs test_defs)

text \<open>
  Claim C4, as the code has it. A validation-layer name is stored once for each entry of
  the layer query that carries it, and a surface, display or platform surface name once
  for each entry of the driver-wide extension query that carries it;
  \<open>VK_EXT_debug_utils\<close> is stored at most once, however many layers list it. So the
  negotiated lists have no name twice whenever the two queries list no name twice.
\<close>

theorem names_once_per_discovery_entry:
  "negotiate pf debug d = (l, Inr cs) \<longrightarrow>
     (distinct (elements (vkEnumerateInstanceLayerProperties d)) \<longrightarrow> distinct (layer_names cs))
     \<and> (distinct (elements (vkEnumerateInstanceExtensionProperties d None))
          \<longrightarrow> distinct (extension_names cs))
     \<and> count_list (extension_names cs) VK_EXT_DEBUG_UTILS_EXTENSION_NAME \<le> 1
     \<and> (\<forall>n. wanted_extension pf n \<longrightarrow>
            count_list (extension_names cs) n
              = count_list (elements (vkEnumerateInstanceExtensionProperties d None)) n)
     \<and> (\<forall>n. debug \<and> wanted_layer n \<longrightarrow>
            count_list (layer_names cs) n
              = count_list (elements (vkEnumerateInstanceLayerProperties d)) n)"
proof
  assume a: "negotiate pf debug d = (l, Inr cs)"
  note n = negotiate_Inr(1-3) [OF a]
  note nw = not_wanted_debug_utils [of pf]
  have 1: "distinct (elements (vkEnumerateInstanceLayerProperties d)) \<longrightarrow> distinct (layer_names cs)"
    using n(1) by simp
  have 2: "distinct (elements (vkEnumerateInstanceExtensionProperties d None))
          \<longrightarrow> distinct (extension_names cs)"
    using n(3) nw by simp
  have 3: "count_list (extension_names cs) VK_EXT_DEBUG_UTILS_EXTENSION_NAME \<le> 1"
    using n(3) nw by (simp add: count_list_filter)
  have 4: "count_list (extension_names cs) n
              = count_list (elements (vkEnumerateInstanceExtensionProperties d None)) n"
    if "wanted_extension pf n" for n
  proof -
    from that nw have "n \<noteq> VK_EXT_DEBUG_UTILS_EXTENSION_NAME" by auto
    with that n(3) show ?thesis by (simp add: count_list_filter)
  qed
  have 5: "count_list (layer_names cs) n
              = count_list (elements (vkEnumerateInstanceLayerProperties d)) n"
    if "debug \<and> wanted_layer n" for n
    using that n(1) by (simp add: count_list_filter)
  from 1 2 3 4 5 show "(distinct (elements (vkEnumerateInstanceLayerProperties d)) \<longrightarrow> distinct (layer_names cs))
     \<and> (distinct (elements (vkEnumerateInstanceExtensionProperties d None))
          \<longrightarrow> distinct (extension_names cs))
     \<and> count_list (extension_names cs) VK_EXT_DEBUG_UTILS_EXTENSION_NAME \<le> 1
     \<and> (\<forall>n. wanted_extension pf n \<longrightarrow>
            count_list (extension_names cs) n
              = count_list (elements (vkEnumerateInstanceExtensionProperties d None)) n)
     \<and> (\<forall>n. debug \<and> wanted_layer n \<longrightarrow>
            count_list (layer_names cs) n
              = count_list (elements (vkEnumerateInstanceLayerProperties d)) n)"
    by blast
qed

theorem names_once_per_discovery_entry_witness:
  "negotiate Linux True
      (test_driver [''VK_LAYER_KHRONOS_validation'', ''VK_LAYER_LUNARG_standard_validation'']
                   [''VK_KHR_surface'', ''VK_KHR_display''] [])
     = ([], Inr \<lparr>layer_names = [''VK_LAYER_KHRONOS_validation'', ''VK_LAYER_LUNARG_standard_validation''],
                 extension_names = [''VK_EXT_debug_utils'', ''VK_KHR_surface'', ''VK_KHR_display''],
                 supports_EXT_debug_utils = True, supports_KHR_surface = True,
                 supports_KHR_display = True\<rparr>)
   \<and> distinct [''VK_LAYER_KHRONOS_validation'', ''VK_LAYER_LUNARG_standard_validation'']
   \<and> distinct [''VK_KHR_surface'', ''VK_KHR_display'']
   \<and> distinct [''VK_EXT_debug_utils'', ''VK_KHR_surface'', ''VK_KHR_display'']
   \<and> wanted_extension Linux ''VK_KHR_surface''
   \<and> wanted_layer ''VK_LAYER_KHRONOS_validation''"
  using names_once_per_discovery_entry
    [of Linux True "test_driver [''VK_LAYER_KHRONOS_validation'', ''VK_LAYER_LUNARG_standard_validation'']
                   [''VK_KHR_surface'', ''VK_KHR_display''] []" "[]"]
  by (simp add: negotiate_defs test_defs wanted_extension_def wanted_layer_def)

text \<open>
  A driver that lists the validation layer and the surface extension twice gets both names
  twice in the negotiated lists.
\<close>

theorem duplicate_entries_are_repeated:
  "negotiate Linux True
      (test_driver [''VK_LAYER_KHRONOS_validation'', ''VK_LAYER_KHRONOS_validation'']
                   [''VK_KHR_surface'', ''VK_KHR_surface''] [])
     = ([], Inr \<lparr>layer_names = [''VK_LAYER_KHRONOS_validation'', ''VK_LAYER_KHRONOS_validation''],
                 extension_names = [''VK_EXT_debug_utils'', ''VK_KHR_surface'', ''VK_KHR_surface''],
                 supports_EXT_debug_utils = True, supports_KHR_surface = True,
                 supports_KHR_display = False\<rparr>)
   \<and> \<not> distinct [''VK_LAYER_KHRONOS_validation'', ''VK_LAYER_KHRONOS_validation'']
   \<and> \<not> distinct [''VK_EXT_debug_utils'', ''VK_KHR_surface'', ''VK_KHR_surface'']"
  by (simp add: negotiate_defs test_defs)

text \<open>
  Claim C5, as the code has it. The number of names written to \<open>extension_names\<close> is
  one for \<open>VK_EXT_debug_utils\<close> when it is supported, plus one for each entry of the
  driver-wide query that carries a surface, display or platform surface name. When the
  query lists no name twice there are at most five such entries; and whenever there are at
  most fifteen, no write leaves the 16-entry array and the negotiated list has at most 16
  names.
\<close>

theorem extension_names_in_bounds:
  "(distinct (elements (vkEnumerateInstanceExtensionProperties d None)) \<longrightarrow>
      length (filter (wanted_extension pf)
                (elements (vkEnumerateInstanceExtensionProperties d None))) \<le> 5)
   \<and> (length (filter (wanted_extension pf)
                (elements (vkEnumerateInstanceExtensionProperties d None))) \<le> 15 \<longrightarrow>
        snd (negotiate pf debug d) \<noteq> Inl Extension_names_overflow)
   \<and> (\<forall>cs. snd (negotiate pf debug d) = Inr cs \<longrightarrow>
        length (extension_names cs)
          = (if supports_EXT_debug_utils cs then 1 else 0)
            + length (filter (wanted_extension pf)
                (elements (vkEnumerateInstanceExtensionProperties d None)))
        \<and> length (extension_names cs) \<le> 16)"
proof -
  have 3: "length (extension_names cs)
          = (if supports_EXT_debug_utils cs then 1 else 0)
            + length (filter (wanted_extension pf)
                (elements (vkEnumerateInstanceExtensionProperties d None)))
        \<and> length (extension_names cs) \<le> 16"
    if "snd (negotiate pf debug d) = Inr cs" for cs
  proof -
    from that have "negotiate pf debug d = (fst (negotiate pf debug d), Inr cs)"
      by (cases "negotiate pf debug d") simp
    from negotiate_Inr(3,5) [OF this] show ?thesis by simp
  qed
  show ?thesis
    using wanted_extension_few [of "elements (vkEnumerateInstanceExtensionProperties d None)" pf]
      negotiate_no_overflow [of pf d debug] 3 by blast
qed

theorem extension_names_in_bounds_witness:
  "distinct (elements (vkEnumerateInstanceExtensionProperties
      (test_driver [''VK_LAYER_KHRONOS_validation''] [''VK_KHR_surface'', ''VK_KHR_xlib_surface''] []) None))
   \<and> negotiate Linux True
        (test_driver [''VK_LAYER_KHRONOS_validation''] [''VK_KHR_surface'', ''VK_KHR_xlib_surface''] [])
      = ([], Inr \<lparr>layer_names = [''VK_LAYER_KHRONOS_validation''],
                 extension_names = [''VK_EXT_debug_utils'', ''VK_KHR_surface'', ''VK_KHR_xlib_surface''],
                 supports_EXT_debug_utils = True, supports_KHR_surface = True,
                 supports_KHR_display = False\<rparr>)
   \<and> length (filter (wanted_extension Linux) [''VK_KHR_surface'', ''VK_KHR_xlib_surface'']) = 2"
  using extension_names_in_bounds
    [of "test_driver [''VK_LAYER_KHRONOS_validation''] [''VK_KHR_surface'', ''VK_KHR_xlib_surface''] []"
        Linux True]
  by (simp add: negotiate_defs test_defs wanted_extension_def platform_names_def)

text \<open>
  A driver-wide query with seventeen entries named \<open>VK_KHR_surface\<close> makes the
  seventeenth write leave the array.
\<close>

theorem seventeen_entries_overflow:
  "negotiate Linux False (test_driver [] (replicate 17 ''VK_KHR_surface'') [])
     = ([], Inl Extension_names_overflow)
   \<and> ended (main (test_args 0 0 None)
        (test_env (test_driver [] (replicate 17 ''VK_KHR_surface'') []))) = Undefined_behaviour"
proof -
  have w: "wanted_extension Linux ''VK_KHR_surface''"
    by (simp add: wanted_extension_def VK_KHR_SURFACE_EXTENSION_NAME_def)
  have n: "negotiate Linux False (test_driver [] (replicate 17 ''VK_KHR_surface'') [])
     = ([], Inl Extension_names_overflow)"
    by (simp add: negotiate_def find_validation_layers_def find_debug_extensions_def
        find_surface_extensions_def Let_def test_driver_def ok_query_def VK_SUCCESS_def
        scan_surface_extensions_eq filter_replicate w)
  then show ?thesis
    by (simp add: main_def test_env_def test_args_def initialize_instance_def
        globals_initial_def VK_NULL_HANDLE_def finish_def stopped_def Let_def)
qed

section \<open>Listing the devices\<close>

lemma digit_value_hex_upper_all:
  "\<forall>d \<in> {..<16::nat}. digit_value (hex_digit_upper d) = Some d"
  by (simp add: lessThan_nat_numeral lessThan_Suc hex_digit_upper_def digit_value_def)

lemma digit_value_hex_upper: "d < 16 \<Longrightarrow> digit_value (hex_digit_upper d) = Some d"
  using digit_value_hex_upper_all by simp

lemma digit_value_dec_all:
  "\<forall>d \<in> {..<10::nat}. digit_value (dec_digit d) = Some d"
  by (simp add: lessThan_nat_numeral lessThan_Suc dec_digit_def digit_value_def)

lemma digit_value_dec: "d < 10 \<Longrightarrow> digit_value (dec_digit d) = Some d"
  using digit_value_dec_all by simp

lemma accumulate_digits_snoc:
  "accumulate_digits b (ds @ [c]) = accumulate_digits b ds * int b + int (the (digit_value c))"
  by (simp add: accumulate_digits_def)

lemma fmt_X_value: "accumulate_digits 16 (fmt_X n) = int n"
proof (induction n rule: fmt_X.induct)
  case (1 n)
  show ?case
  proof (cases "n < 16")
    case True
    then show ?thesis
      by (subst fmt_X.simps) (simp add: accumulate_digits_def digit_value_hex_upper)
  next
    case False
    have "accumulate_digits 16 (fmt_X n)
            = accumulate_digits 16 (fmt_X (n div 16)) * 16 + int (n mod 16)"
      using False
      by (subst fmt_X.simps) (simp add: accumulate_digits_snoc digit_value_hex_upper)
    also have "\<dots> = int (n div 16) * 16 + int (n mod 16)"
      using 1 False by simp
    also have "\<dots> = int n"
      by (simp add: zdiv_int zmod_int)
    finally show ?thesis .
  qed
qed

lemma fmt_u_value: "accumulate_digits 10 (fmt_u n) = int n"
proof (induction n rule: fmt_u.induct)
  case (1 n)
  show ?case
  proof (cases "n < 10")
    case True
    then show ?thesis
      by (subst fmt_u.simps) (simp add: accumulate_digits_def digit_value_dec)
  next
    case False
    have "accumulate_digits 10 (fmt_u n)
            = accumulate_digits 10 (fmt_u (n div 10)) * 10 + int (n mod 10)"
      using False
      by (subst fmt_u.simps) (simp add: accumulate_digits_snoc digit_value_dec)
    also have "\<dots> = int (n div 10) * 10 + int (n mod 10)"
      using 1 False by simp
    also have "\<dots> = int n"
      by (simp add: zdiv_int zmod_int)
    finally show ?thesis .
  qed
qed

lemma hex_digit_upper_mem: "d < 16 \<Longrightarrow> hex_digit_upper d \<in> set ''0123456789ABCDEF''"
  unfolding hex_digit_upper_def by (rule nth_mem) simp

lemma fmt_X_chars: "set (fmt_X n) \<subseteq> set ''0123456789ABCDEF''"
proof (induction n rule: fmt_X.induct)
  case (1 n)
  show ?case
  proof (cases "n < 16")
    case True
    then show ?thesis
      using hex_digit_upper_mem [of n] by (subst fmt_X.simps) simp
  next
    case False
    then show ?thesis
      using 1 hex_digit_upper_mem [of "n mod 16"] by (subst fmt_X.simps) simp
  qed
qed

lemma fmt_X_length: "0 < k \<Longrightarrow> n < 16 ^ k \<Longrightarrow> length (fmt_X n) \<le> k"
proof (induction n arbitrary: k rule: fmt_X.induct)
  case (1 n)
  show ?case
  proof (cases "n < 16")
    case True
    then show ?thesis using "1.prems" by (subst fmt_X.simps) simp
  next
    case False
    from "1.prems" obtain k' where k: "k = Suc k'" by (cases k) auto
    have "0 < k'"
    proof (rule ccontr)
      assume "\<not> 0 < k'"
      with k "1.prems" False show False by simp
    qed
    moreover have "n div 16 < 16 ^ k'"
      using "1.prems" k by (simp add: less_mult_imp_div_less mult.commute)
    ultimately have "length (fmt_X (n div 16)) \<le> k'"
      using "1.IH" False by simp
    then show ?thesis using False k by (subst fmt_X.simps) simp
  qed
qed

lemma accumulate_digits_zeros:
  "accumulate_digits 16 (replicate k (CHR ''0'') @ ds) = accumulate_digits 16 ds"
proof -
  have "foldl (\<lambda>a c. a * 16 + int (the (digit_value c))) 0 (replicate k (CHR ''0'')) = 0"
    by (induction k) (simp_all add: digit_value_def)
  then show ?thesis by (simp add: accumulate_digits_def)
qed

lemma fmt_08X_correct:
  "length (fmt_08X w) = 8 \<and> set (fmt_08X w) \<subseteq> set ''0123456789ABCDEF''
   \<and> accumulate_digits 16 (fmt_08X w) = uint w"
proof -
  have "unat w < 2 ^ 32" using unsigned_less [of w] by simp
  then have "unat w < 16 ^ 8" by simp
  then have len: "length (fmt_X (unat w)) \<le> 8" by (intro fmt_X_length) simp_all
  have chars: "set (fmt_08X w) \<subseteq> set ''0123456789ABCDEF''"
    using fmt_X_chars [of "unat w"] by (auto simp: fmt_08X_def Let_def)
  have val: "accumulate_digits 16 (fmt_08X w) = uint w"
    by (simp add: fmt_08X_def Let_def accumulate_digits_zeros fmt_X_value)
  from len chars val show ?thesis by (simp add: fmt_08X_def Let_def)
qed

lemma print_devices_blocks:
  "print_devices i ps
     = concat (map (\<lambda>k. ''Device '' @ fmt_u (i + k) @ '':'' @ newline
                          @ ''    Name: '' @ deviceName (ps ! k) @ newline
                          @ ''    ID: 0x'' @ fmt_08X (deviceID (ps ! k)) @ newline)
                [0..<length ps])"
proof (induction ps arbitrary: i)
  case Nil
  then show ?case by simp
next
  case (Cons p ps)
  have "[0..<length (p # ps)] = 0 # map Suc [0..<length ps]"
    by (simp add: upt_conv_Cons map_Suc_upt del: upt_Suc)
  then show ?case
    using Cons.IH [of "Suc i"] by (simp add: comp_def del: upt_Suc)
qed

lemma replicate_numeral: "replicate (numeral k) x = x # replicate (pred_numeral k) x"
  by (simp add: numeral_eq_Suc)

lemma fmt_u_chars: "set (fmt_u n) \<subseteq> set ''0123456789''"
proof (induction n rule: fmt_u.induct)
  case (1 n)
  have mem: "d < 10 \<Longrightarrow> dec_digit d \<in> set ''0123456789''" for d
    unfolding dec_digit_def by (rule nth_mem) simp
  show ?case
  proof (cases "n < 10")
    case True
    then show ?thesis using mem [of n] by (subst fmt_u.simps) simp
  next
    case False
    then show ?thesis using 1 mem [of "n mod 10"] by (subst fmt_u.simps) simp
  qed
qed

text \<open>
  Claim C8. When the run reaches the enumeration, the enumeration succeeds and
  \<open>--list-devices\<close> is set, the standard output is
  \<open>Available physical devices: Count = n\<close> with \<open>n\<close> the number of
  enumerated descriptors in decimal, followed for each device in order by its index, its
  name and \<open>0x\<close> with its identifier as exactly eight characters among
  \<open>0-9A-F\<close> whose hexadecimal value is the identifier; the program returns 0, and
  the selection block is not entered.
\<close>

theorem list_devices_output:
  "reaches_enumeration a e \<and> enumeration_succeeds e \<and> list_available_devices a \<noteq> 0 \<longrightarrow>
     stdout (main a e)
       = ''Available physical devices: Count = '' @ fmt_u (length (enumerated_properties e))
         @ newline
         @ concat (map (\<lambda>k. ''Device '' @ fmt_u k @ '':'' @ newline
                            @ ''    Name: '' @ deviceName (enumerated_properties e ! k) @ newline
                            @ ''    ID: 0x'' @ fmt_08X (deviceID (enumerated_properties e ! k))
                            @ newline)
                     [0..<length (enumerated_properties e)])
     \<and> length (enumerated_properties e) = length (elements (vkEnumeratePhysicalDevices (drv e)))
     \<and> set (fmt_u (length (enumerated_properties e))) \<subseteq> set ''0123456789''
     \<and> accumulate_digits 10 (fmt_u (length (enumerated_properties e)))
         = int (length (enumerated_properties e))
     \<and> (\<forall>p \<in> set (enumerated_properties e).
           length (fmt_08X (deviceID p)) = 8
           \<and> set (fmt_08X (deviceID p)) \<subseteq> set ''0123456789ABCDEF''
           \<and> accumulate_digits 16 (fmt_08X (deviceID p)) = uint (deviceID p))
     \<and> ended (main a e) = Return 0
     \<and> selected_physical_device_index (main a e) = None
     \<and> log_output (main a e) = startup_log a e"
proof
  assume a: "reaches_enumeration a e \<and> enumeration_succeeds e \<and> list_available_devices a \<noteq> 0"
  then have m: "main a e = list_and_select a e (startup_log a e)"
    by (simp add: main_reaches)
  have out: "stdout (main a e)
       = ''Available physical devices: Count = '' @ fmt_u (length (enumerated_properties e))
         @ newline
         @ concat (map (\<lambda>k. ''Device '' @ fmt_u k @ '':'' @ newline
                            @ ''    Name: '' @ deviceName (enumerated_properties e ! k) @ newline
                            @ ''    ID: 0x'' @ fmt_08X (deviceID (enumerated_properties e ! k))
                            @ newline)
                     [0..<length (enumerated_properties e)])"
    using a unfolding m
    by (simp add: list_and_select_def finish_def Let_def enumeration_succeeds_def
        enumerated_properties_def print_devices_blocks del: upt_Suc)
  have rest: "ended (main a e) = Return 0 \<and> selected_physical_device_index (main a e) = None
     \<and> log_output (main a e) = startup_log a e"
    using a unfolding m
    by (simp add: list_and_select_def finish_def Let_def enumeration_succeeds_def)
  have len: "length (enumerated_properties e) = length (elements (vkEnumeratePhysicalDevices (drv e)))"
    by (simp add: enumerated_properties_def)
  from out rest len fmt_u_chars fmt_u_value fmt_08X_correct
  show "stdout (main a e)
       = ''Available physical devices: Count = '' @ fmt_u (length (enumerated_properties e))
         @ newline
         @ concat (map (\<lambda>k. ''Device '' @ fmt_u k @ '':'' @ newline
                            @ ''    Name: '' @ deviceName (enumerated_properties e ! k) @ newline
                            @ ''    ID: 0x'' @ fmt_08X (deviceID (enumerated_properties e ! k))
                            @ newline)
                     [0..<length (enumerated_properties e)])
     \<and> length (enumerated_properties e) = length (elements (vkEnumeratePhysicalDevices (drv e)))
     \<and> set (fmt_u (length (enumerated_properties e))) \<subseteq> set ''0123456789''
     \<and> accumulate_digits 10 (fmt_u (length (enumerated_properties e)))
         = int (length (enumerated_properties e))
     \<and> (\<forall>p \<in> set (enumerated_properties e).
           length (fmt_08X (deviceID p)) = 8
           \<and> set (fmt_08X (deviceID p)) \<subseteq> set ''0123456789ABCDEF''
           \<and> accumulate_digits 16 (fmt_08X (deviceID p)) = uint (deviceID p))
     \<and> ended (main a e) = Return 0
     \<and> selected_physical_device_index (main a e) = None
     \<and> log_output (main a e) = startup_log a e"
    by blast
qed

theorem list_devices_output_witness:
  "reaches_enumeration (test_args 0 1 (Some ''Beta'')) (test_env (test_driver [] [] [1, 2]))
   \<and> enumeration_succeeds (test_env (test_driver [] [] [1, 2]))
   \<and> stdout (main (test_args 0 1 (Some ''Beta'')) (test_env (test_driver [] [] [1, 2])))
       = ''Available physical devices: Count = 2'' @ newline
         @ ''Device 0:'' @ newline @ ''    Name: Alpha'' @ newline @ ''    ID: 0x00000AB1'' @ newline
         @ ''Device 1:'' @ newline @ ''    Name: Beta'' @ newline @ ''    ID: 0x00000AB2'' @ newline
   \<and> ended (main (test_args 0 1 (Some ''Beta'')) (test_env (test_driver [] [] [1, 2]))) = Return 0"
proof -
  let ?a = "test_args 0 1 (Some ''Beta'')"
  let ?e = "test_env (test_driver [] [] [1, 2])"
  have r: "reaches_enumeration ?a ?e" by (rule test_reaches)
  have s: "enumeration_succeeds ?e"
    by (simp add: enumeration_succeeds_def test_defs)
  have l: "list_available_devices ?a \<noteq> 0" by (simp add: test_args_def)
  have p: "enumerated_properties ?e
             = [\<lparr>deviceName = ''Alpha'', deviceID = 0xAB1\<rparr>, \<lparr>deviceName = ''Beta'', deviceID = 0xAB2\<rparr>]"
    by (simp add: enumerated_properties_def test_defs)
  have u: "fmt_u 0 = ''0''" "fmt_u (Suc 0) = ''1''" "fmt_u (Suc (Suc 0)) = ''2''"
    by (simp_all add: fmt_u.simps dec_digit_def)
  have n: "length (elements (vkEnumeratePhysicalDevices (drv ?e))) = Suc (Suc 0)"
    by (simp add: test_defs)
  have x: "fmt_08X 0xAB1 = ''00000AB1''" "fmt_08X 0xAB2 = ''00000AB2''"
    by (simp_all add: fmt_08X_def fmt_X.simps hex_digit_upper_def replicate_numeral)
  from list_devices_output [of ?a ?e] r s l
  show ?thesis by (simp add: p u x n upt_conv_Cons del: upt_Suc)
qed

end
